theory Spec2Isabelle
  imports Complex_Main "HOL-Library.Char_ord" "HOL-Library.List_Lexorder" "HOL-Library.Multiset"
begin

section \<open>Errors\<close>

text \<open>
  The exceptions that \<^verbatim>\<open>app.py\<close> can raise while it normalizes a dataset or builds the
  region list. \<^verbatim>\<open>ValueError\<close> is the only one the program raises on purpose (line 82); the
  others are raised by the libraries it calls. The argument is the message.
\<close>

datatype error = ValueError string | KeyError string | AttributeError string | TypeError string

section \<open>Frames and the normalizer \<^verbatim>\<open>load_data\<close> (lines 42--112)\<close>

text \<open>
  A frame is the table \<^verbatim>\<open>pd.read_csv\<close> returns: columns in file order, each with a name
  and a dtype. An object column holds strings or missing cells, a numeric column holds
  numbers or missing cells (\<open>None\<close> is NaN). Numbers are exact rationals: rounding,
  infinities and overflow of the machine numbers are outside this model, and so are
  boolean and date columns. Strings are byte strings; case and white space are those of
  ASCII.
\<close>

type_synonym number = "rat option"

datatype column = ObjCol "string option list" | NumCol "number list"

type_synonym frame = "(string \<times> column) list"

text \<open>
  What \<^verbatim>\<open>pd.to_numeric\<close> makes of one string is the library's business: a parser gives
  \<open>None\<close> for a string that is no number, and the number (or NaN) otherwise. Every
  function below takes the parser as its first argument.
\<close>

type_synonym parser = "string \<Rightarrow> number option"

definition columns :: "frame \<Rightarrow> string list" where
  "columns df = map fst df"

text \<open>\<^verbatim>\<open>df[c]\<close> read, and \<^verbatim>\<open>df[c] = v\<close>: in place when the column exists, appended last otherwise.\<close>

definition get_col :: "frame \<Rightarrow> string \<Rightarrow> column option" where
  "get_col df c = map_of df c"

definition set_col :: "frame \<Rightarrow> string \<Rightarrow> column \<Rightarrow> frame" where
  "set_col df c v =
     (if c \<in> set (columns df) then map (\<lambda>(n, x). if n = c then (n, v) else (n, x)) df
      else df @ [(c, v)])"

fun col_len :: "column \<Rightarrow> nat" where
  "col_len (ObjCol xs) = length xs"
| "col_len (NumCol xs) = length xs"

definition nrows :: "frame \<Rightarrow> nat" where
  "nrows df = (case df of [] \<Rightarrow> 0 | (n, c) # rest \<Rightarrow> col_len c)"

definition fillna0 :: "number \<Rightarrow> number" where
  "fillna0 x = (case x of None \<Rightarrow> Some 0 | Some v \<Rightarrow> Some v)"

text \<open>Lines 46--48: \<^verbatim>\<open>astype(str).str.strip()\<close> on every object column.\<close>

definition is_space :: "char \<Rightarrow> bool" where
  "is_space c \<longleftrightarrow>
     c \<in> set [CHR '' '', CHR 0x09, CHR 0x0A, CHR 0x0B, CHR 0x0C, CHR 0x0D,
              CHR 0x1C, CHR 0x1D, CHR 0x1E, CHR 0x1F]"

definition str_strip :: "string \<Rightarrow> string" where
  "str_strip s = rev (dropWhile is_space (rev (dropWhile is_space s)))"

definition astype_str :: "string option \<Rightarrow> string" where
  "astype_str x = (case x of None \<Rightarrow> ''nan'' | Some s \<Rightarrow> s)"

definition strip_column :: "column \<Rightarrow> column" where
  "strip_column c =
     (case c of ObjCol xs \<Rightarrow> ObjCol (map (\<lambda>x. Some (str_strip (astype_str x))) xs)
              | NumCol xs \<Rightarrow> NumCol xs)"

definition strip_spaces :: "frame \<Rightarrow> frame" where
  "strip_spaces df = map (\<lambda>(n, c). (n, strip_column c)) df"

text \<open>
  \<^verbatim>\<open>pd.to_numeric\<close>: a missing cell of an object column is NaN. With
  \<^verbatim>\<open>errors="coerce"\<close> a string that is no number becomes NaN; with \<^verbatim>\<open>errors="ignore"\<close> the
  column is returned as it was when any string is no number.
\<close>

definition parse_cell :: "parser \<Rightarrow> string option \<Rightarrow> number option" where
  "parse_cell P x = (case x of None \<Rightarrow> Some None | Some s \<Rightarrow> P s)"

definition coerce_cell :: "parser \<Rightarrow> string option \<Rightarrow> number" where
  "coerce_cell P x = (case parse_cell P x of None \<Rightarrow> None | Some v \<Rightarrow> v)"

definition to_numeric_coerce :: "parser \<Rightarrow> column \<Rightarrow> number list" where
  "to_numeric_coerce P c =
     (case c of NumCol xs \<Rightarrow> xs | ObjCol xs \<Rightarrow> map (coerce_cell P) xs)"

definition to_numeric_ignore :: "parser \<Rightarrow> column \<Rightarrow> column" where
  "to_numeric_ignore P c =
     (case c of
        NumCol xs \<Rightarrow> NumCol xs
      | ObjCol xs \<Rightarrow>
          if list_all (\<lambda>x. parse_cell P x \<noteq> None) xs then NumCol (map (coerce_cell P) xs)
          else ObjCol xs)"

text \<open>
  Lines 51--52: the year column. \<^verbatim>\<open>astype("Int64")\<close> keeps NaN as a missing integer and
  raises \<^verbatim>\<open>TypeError\<close> on a number with a fractional part.
\<close>

definition is_integer :: "rat \<Rightarrow> bool" where
  "is_integer q \<longleftrightarrow> of_int \<lfloor>q\<rfloor> = q"

definition astype_Int64 :: "number list \<Rightarrow> error + number list" where
  "astype_Int64 xs =
     (if list_all (\<lambda>x. case x of None \<Rightarrow> True | Some q \<Rightarrow> is_integer q) xs then Inr xs
      else Inl (TypeError ''cannot safely cast non-equivalent float64 to int64''))"

definition year_to_Int64 :: "parser \<Rightarrow> frame \<Rightarrow> error + frame" where
  "year_to_Int64 P df =
     (case get_col df ''Year'' of
        None \<Rightarrow> Inr df
      | Some c \<Rightarrow>
          (case astype_Int64 (to_numeric_coerce P c) of
             Inl e \<Rightarrow> Inl e
           | Inr ys \<Rightarrow> Inr (set_col df ''Year'' (NumCol ys))))"

text \<open>Lines 55--60: the first alias found is renamed; with no alias nothing happens.\<close>

definition area_aliases :: "string list" where
  "area_aliases = [''STATE/UT'', ''State/UT'', ''State'', ''STATE'', ''District'', ''DISTRICT'']"

definition rename :: "string \<Rightarrow> string \<Rightarrow> frame \<Rightarrow> frame" where
  "rename old new df = map (\<lambda>(n, c). (if n = old then new else n, c)) df"

definition standardize_area :: "frame \<Rightarrow> frame" where
  "standardize_area df =
     (if ''Area_Name'' \<notin> set (columns df)
      then (case find (\<lambda>alt. alt \<in> set (columns df)) area_aliases of
              Some alt \<Rightarrow> rename alt ''Area_Name'' df
            | None \<Rightarrow> df)
      else df)"

text \<open>Lines 63--65.\<close>

definition categorical :: "string list" where
  "categorical = [''Area_Name'', ''Group_Name'', ''Sub_Group_Name'']"

definition convert_numeric :: "parser \<Rightarrow> frame \<Rightarrow> frame" where
  "convert_numeric P df =
     map (\<lambda>(n, c). if n \<notin> set categorical then (n, to_numeric_ignore P c) else (n, c)) df"

text \<open>
  Lines 68--76: the property-crime file. \<^verbatim>\<open>df.get(name, 0)\<close> is the number \<open>0\<close> when the
  column is missing, \<^verbatim>\<open>pd.to_numeric\<close> returns a number as it is, and a number has no
  \<^verbatim>\<open>fillna\<close>: \<^verbatim>\<open>AttributeError\<close>.
\<close>

definition series_sub :: "number \<Rightarrow> number \<Rightarrow> number" where
  "series_sub a b = (case (a, b) of (Some x, Some y) \<Rightarrow> Some (x - y) | _ \<Rightarrow> None)"

definition np_where_row_rate :: "number \<Rightarrow> number \<Rightarrow> number" where
  "np_where_row_rate crimes recovered =
     (case crimes of
        None \<Rightarrow> Some 0
      | Some c \<Rightarrow>
          if c > 0 then (case recovered of None \<Rightarrow> None | Some r \<Rightarrow> Some (r / c)) else Some 0)"

definition get_numeric_filled :: "parser \<Rightarrow> frame \<Rightarrow> string \<Rightarrow> error + number list" where
  "get_numeric_filled P df c =
     (case get_col df c of
        None \<Rightarrow> Inl (AttributeError ''int object has no attribute fillna'')
      | Some x \<Rightarrow> Inr (map fillna0 (to_numeric_coerce P x)))"

definition property_crime :: "parser \<Rightarrow> frame \<Rightarrow> error + frame" where
  "property_crime P df =
     (case get_col df ''Cases_Property_Stolen'' of
        None \<Rightarrow> Inl (KeyError ''Cases_Property_Stolen'')
      | Some stolen \<Rightarrow>
         (let crimes = map fillna0 (to_numeric_coerce P stolen);
              df1 = set_col df ''Total_Crimes'' (NumCol crimes)
          in (case get_numeric_filled P df1 ''Cases_Property_Recovered'' of
                Inl e \<Rightarrow> Inl e
              | Inr recovered \<Rightarrow>
         (let df2 = set_col df1 ''Total_Recovered'' (NumCol recovered)
          in (case get_numeric_filled P df2 ''Value_of_Property_Stolen'' of
                Inl e \<Rightarrow> Inl e
              | Inr value_stolen \<Rightarrow>
         (let df3 = set_col df2 ''Total_Value_Stolen'' (NumCol value_stolen)
          in (case get_numeric_filled P df3 ''Value_of_Property_Recovered'' of
                Inl e \<Rightarrow> Inl e
              | Inr value_recovered \<Rightarrow>
         (let df4 = set_col df3 ''Total_Value_Recovered'' (NumCol value_recovered);
              df5 = set_col df4 ''Loss_Value''
                      (NumCol (map2 series_sub value_stolen value_recovered))
          in Inr (set_col df5 ''Recovery_Rate''
                    (NumCol (map2 np_where_row_rate crimes recovered)))))))))))"

text \<open>Lines 79--92: every other file.\<close>

definition py_lower_char :: "char \<Rightarrow> char" where
  "py_lower_char c =
     (case map_of (zip ''ABCDEFGHIJKLMNOPQRSTUVWXYZ'' ''abcdefghijklmnopqrstuvwxyz'') c of
        Some l \<Rightarrow> l
      | None \<Rightarrow> c)"

definition lower :: "string \<Rightarrow> string" where
  "lower s = map py_lower_char s"

fun starts_with :: "string \<Rightarrow> string \<Rightarrow> bool" where
  "starts_with [] s = True"
| "starts_with (p # ps) [] = False"
| "starts_with (p # ps) (c # cs) = (p = c \<and> starts_with ps cs)"

fun py_in :: "string \<Rightarrow> string \<Rightarrow> bool" where
  "py_in sub [] = (sub = [])"
| "py_in sub (c # cs) = (starts_with sub (c # cs) \<or> py_in sub cs)"

definition is_preferred :: "string \<Rightarrow> bool" where
  "is_preferred c \<longleftrightarrow>
     py_in ''case'' (lower c) \<or> py_in ''crime'' (lower c) \<or> py_in ''total'' (lower c)"

fun is_numeric :: "column \<Rightarrow> bool" where
  "is_numeric (NumCol xs) = True"
| "is_numeric (ObjCol xs) = False"

definition numeric_cols :: "frame \<Rightarrow> string list" where
  "numeric_cols df = map fst (filter (\<lambda>(n, c). is_numeric c) df)"

definition base_col :: "string list \<Rightarrow> string" where
  "base_col ncols =
     (let preferred = filter is_preferred ncols
      in if preferred \<noteq> [] then hd preferred else hd ncols)"

definition zeros :: "frame \<Rightarrow> column" where
  "zeros df = NumCol (replicate (nrows df) (Some 0))"

definition generic :: "parser \<Rightarrow> string \<Rightarrow> frame \<Rightarrow> error + frame" where
  "generic P file_path df =
     (if length (numeric_cols df) = 0
      then Inl (ValueError (''No numeric columns found in dataset: '' @ file_path))
      else
        (case get_col df (base_col (numeric_cols df)) of
           None \<Rightarrow> Inl (KeyError (base_col (numeric_cols df)))
         | Some base \<Rightarrow>
             let df1 = set_col df ''Total_Crimes'' (NumCol (map fillna0 (to_numeric_coerce P base)));
                 df2 = set_col df1 ''Total_Recovered'' (zeros df1);
                 df3 = set_col df2 ''Loss_Value'' (zeros df2)
             in Inr (set_col df3 ''Recovery_Rate'' (zeros df3))))"

text \<open>Lines 95--98.\<close>

definition default_column :: "string \<Rightarrow> frame \<Rightarrow> frame" where
  "default_column c df =
     (if c \<notin> set (columns df) then set_col df c (ObjCol (replicate (nrows df) (Some ''Overall'')))
      else df)"

definition standardize_groups :: "frame \<Rightarrow> frame" where
  "standardize_groups df = default_column ''Sub_Group_Name'' (default_column ''Group_Name'' df)"

text \<open>Lines 101--110: exact-match replacement; reading a missing column raises \<^verbatim>\<open>KeyError\<close>.\<close>

definition STATE_MAP :: "(string \<times> string) list" where
  "STATE_MAP =
     [(''NCT of Delhi'', ''Delhi''),
      (''Orissa'', ''Odisha''),
      (''Uttaranchal'', ''Uttarakhand''),
      (''Jammu & Kashmir'', ''Jammu and Kashmir''),
      (''Andaman & Nicobar Islands'', ''Andaman and Nicobar''),
      (''Dadra & Nagar Haveli'', ''Dadra and Nagar Haveli''),
      (''Daman & Diu'', ''Daman and Diu'')]"

definition replace_value :: "string \<Rightarrow> string" where
  "replace_value s = (case map_of STATE_MAP s of None \<Rightarrow> s | Some t \<Rightarrow> t)"

definition replace_column :: "column \<Rightarrow> column" where
  "replace_column c =
     (case c of ObjCol xs \<Rightarrow> ObjCol (map (map_option replace_value) xs)
              | NumCol xs \<Rightarrow> NumCol xs)"

definition standardize_state_names :: "frame \<Rightarrow> error + frame" where
  "standardize_state_names df =
     (case get_col df ''Area_Name'' of
        None \<Rightarrow> Inl (KeyError ''Area_Name'')
      | Some c \<Rightarrow> Inr (set_col df ''Area_Name'' (replace_column c)))"

text \<open>
  Lines 62--65: the frame after the stripping, the year cast, the renaming and the numeric
  conversion, on which line 68 decides the kind of dataset.
\<close>

definition coerced :: "parser \<Rightarrow> frame \<Rightarrow> error + frame" where
  "coerced P df =
     (case year_to_Int64 P (strip_spaces df) of
        Inl e \<Rightarrow> Inl e
      | Inr df2 \<Rightarrow> Inr (convert_numeric P (standardize_area df2)))"

definition load_data :: "parser \<Rightarrow> string \<Rightarrow> frame \<Rightarrow> error + frame" where
  "load_data P file_path df =
     (case coerced P df of
        Inl e \<Rightarrow> Inl e
      | Inr df4 \<Rightarrow>
          (case (if ''Cases_Property_Stolen'' \<in> set (columns df4) then property_crime P df4
                 else generic P file_path df4) of
             Inl e \<Rightarrow> Inl e
           | Inr df5 \<Rightarrow> standardize_state_names (standardize_groups df5)))"

section \<open>Filtered rows and the aggregation script (lines 145--170, 214--228)\<close>

text \<open>
  One row of the normalized and filtered frame \<^verbatim>\<open>df\<close> that the aggregation part reads. The
  text columns hold strings (\<^verbatim>\<open>load_data\<close> turns every cell of an object column into a
  string), and the four derived columns hold numbers without missing values
  (\<^verbatim>\<open>fillna(0)\<close>). Numbers are exact rationals: rounding,
      infinities and overflow of the
  machine numbers are outside this model.
\<close>

record nrow =
  Area_Name :: string
  Year :: "int option"
  Group_Name :: string
  Sub_Group_Name :: string
  Total_Crimes :: rat
  Total_Recovered :: rat
  Loss_Value :: rat
  Recovery_Rate :: rat

text \<open>
  \<^verbatim>\<open>groupby(key)\<close> with its defaults (\<^verbatim>\<open>sort=True\<close>): one group per distinct key,
      the
  groups in ascending order of the key.
\<close>

definition group_keys :: "('r \<Rightarrow> string) \<Rightarrow> 'r list \<Rightarrow> string list" where
  "group_keys k df = sort (remdups (map k df))"

definition group_rows :: "('r \<Rightarrow> string) \<Rightarrow> string \<Rightarrow> 'r list \<Rightarrow> 'r list" where
  "group_rows k a df = filter (\<lambda>r. k r = a) df"

definition col_sum :: "('r \<Rightarrow> rat) \<Rightarrow> 'r list \<Rightarrow> rat" where
  "col_sum f rs = sum_list (map f rs)"

text \<open>Lines 145--152: the frame grouped by \<^verbatim>\<open>Area_Name\<close>,
    three sums per group.\<close>

record agg_row =
  agg_Area_Name :: string
  agg_Total_Crimes :: rat
  agg_Total_Recovered :: rat
  agg_Loss_Value :: rat

definition state_agg_groupby :: "nrow list \<Rightarrow> agg_row list" where
  "state_agg_groupby df =
     map (\<lambda>a. \<lparr> agg_Area_Name = a,
                agg_Total_Crimes = col_sum Total_Crimes (group_rows Area_Name a df),
                agg_Total_Recovered = col_sum Total_Recovered (group_rows Area_Name a df),
                agg_Loss_Value = col_sum Loss_Value (group_rows Area_Name a df) \<rparr>)
         (group_keys Area_Name df)"

text \<open>
  Lines 154--158: \<^verbatim>\<open>np.where(Total_Crimes > 0, Total_Recovered / Total_Crimes,
      0)\<close>, row by
  row.
\<close>

definition np_where_rate :: "rat \<Rightarrow> rat \<Rightarrow> rat" where
  "np_where_rate crimes recovered = (if crimes > 0 then recovered / crimes else 0)"

record rate_row =
  rr_Area_Name :: string
  rr_Total_Crimes :: rat
  rr_Total_Recovered :: rat
  rr_Loss_Value :: rat
  rr_Recovery_Rate :: rat

definition with_recovery_rate :: "agg_row \<Rightarrow> rate_row" where
  "with_recovery_rate g =
     \<lparr> rr_Area_Name = agg_Area_Name g,
       rr_Total_Crimes = agg_Total_Crimes g,
       rr_Total_Recovered = agg_Total_Recovered g,
       rr_Loss_Value = agg_Loss_Value g,
       rr_Recovery_Rate = np_where_rate (agg_Total_Crimes g) (agg_Total_Recovered g) \<rparr>"

definition state_agg_rates :: "nrow list \<Rightarrow> rate_row list" where
  "state_agg_rates df = map with_recovery_rate (state_agg_groupby df)"

text \<open>
  Lines 35--38: the region list. A feature of the boundary file is its \<^verbatim>\<open>properties\<close>
  object; reading a key that is not there raises \<^verbatim>\<open>KeyError\<close>.
\<close>

record feature =
  properties :: "string \<rightharpoonup> string"

definition GEO_STATE_NAME_KEY :: string where
  "GEO_STATE_NAME_KEY = ''NAME_1''"

fun feature_names :: "feature list \<Rightarrow> error + string list" where
  "feature_names [] = Inr []"
| "feature_names (f # fs) =
     (case properties f GEO_STATE_NAME_KEY of
        None \<Rightarrow> Inl (KeyError GEO_STATE_NAME_KEY)
      | Some n \<Rightarrow> (case feature_names fs of Inl e \<Rightarrow> Inl e | Inr ns \<Rightarrow> Inr (n # ns)))"

definition get_all_states_df :: "feature list \<Rightarrow> error + string list" where
  "get_all_states_df india_geojson =
     (case feature_names india_geojson of
        Inl e \<Rightarrow> Inl e
      | Inr states \<Rightarrow> Inr (sort (remdups states)))"

text \<open>
  Line 161: \<^verbatim>\<open>all_states_df.merge(state_agg, on="Area_Name",
      how="left")\<close>. Every row of the
  left frame is kept, in its order, once per matching row of the right frame; with no match
  the right frame's columns are missing (\<open>None\<close>). Rows of the right frame whose key is not
  in the left frame do not appear.
\<close>

record merged_row =
  m_Area_Name :: string
  m_Total_Crimes :: "rat option"
  m_Total_Recovered :: "rat option"
  m_Loss_Value :: "rat option"
  m_Recovery_Rate :: "rat option"

definition matched :: "string \<Rightarrow> rate_row \<Rightarrow> merged_row" where
  "matched a g =
     \<lparr> m_Area_Name = a,
       m_Total_Crimes = Some (rr_Total_Crimes g),
       m_Total_Recovered = Some (rr_Total_Recovered g),
       m_Loss_Value = Some (rr_Loss_Value g),
       m_Recovery_Rate = Some (rr_Recovery_Rate g) \<rparr>"

definition unmatched :: "string \<Rightarrow> merged_row" where
  "unmatched a =
     \<lparr> m_Area_Name = a, m_Total_Crimes = None, m_Total_Recovered = None,
       m_Loss_Value = None, m_Recovery_Rate = None \<rparr>"

definition merge_left :: "string list \<Rightarrow> rate_row list \<Rightarrow> merged_row list" where
  "merge_left all_states agg =
     concat (map (\<lambda>a. case filter (\<lambda>g. rr_Area_Name g = a) agg of
                         [] \<Rightarrow> [unmatched a]
                       | ms \<Rightarrow> map (matched a) ms) all_states)"

text \<open>Lines 163--165: \<^verbatim>\<open>fillna(0)\<close> on the four numeric columns.\<close>

definition fill_row :: "merged_row \<Rightarrow> merged_row" where
  "fill_row r =
     r \<lparr> m_Total_Crimes := fillna0 (m_Total_Crimes r),
         m_Total_Recovered := fillna0 (m_Total_Recovered r),
         m_Loss_Value := fillna0 (m_Loss_Value r),
         m_Recovery_Rate := fillna0 (m_Recovery_Rate r) \<rparr>"

definition state_agg :: "string list \<Rightarrow> nrow list \<Rightarrow> merged_row list" where
  "state_agg all_states df = map fill_row (merge_left all_states (state_agg_rates df))"

text \<open>
  Lines 168--170: the three figures above the map. \<^verbatim>\<open>Series.sum()\<close> skips missing values,
  \<^verbatim>\<open>int()\<close> truncates towards zero.
\<close>

definition series_sum :: "rat option list \<Rightarrow> rat" where
  "series_sum xs = sum_list (map (\<lambda>x. case x of None \<Rightarrow> 0 | Some v \<Rightarrow> v) xs)"

definition py_int :: "rat \<Rightarrow> int" where
  "py_int q = (if q \<ge> 0 then \<lfloor>q\<rfloor> else \<lceil>q\<rceil>)"

definition total_crimes :: "merged_row list \<Rightarrow> int" where
  "total_crimes sa = py_int (series_sum (map m_Total_Crimes sa))"

definition total_recovered :: "merged_row list \<Rightarrow> int" where
  "total_recovered sa = py_int (series_sum (map m_Total_Recovered sa))"

definition recovery_rate :: "merged_row list \<Rightarrow> rat" where
  "recovery_rate sa =
     (if total_crimes sa \<noteq> 0
      then of_int (total_recovered sa) / of_int (total_crimes sa) * 100 else 0)"





text \<open>Every column of a frame has \<open>k\<close> cells: the frame has \<open>k\<close> rows.\<close>

definition rectk :: "nat \<Rightarrow> frame \<Rightarrow> bool" where
  "rectk k df \<longleftrightarrow> (\<forall>(n, c) \<in> set df. col_len c = k)"

text \<open>
  Three columns of \<open>k\<close> rows where the third is the rate of the second to the first, row by
  row.
\<close>

definition row_rates :: "nat \<Rightarrow> number list \<Rightarrow> number list \<Rightarrow> number list \<Rightarrow> bool" where
  "row_rates k tc tr rr \<longleftrightarrow>
     length tc = k \<and> length tr = k \<and> length rr = k \<and>
     (\<forall>i<k. \<exists>c r. tc ! i = Some c \<and> tr ! i = Some r \<and>
        rr ! i = Some (if c > 0 then r / c else 0))"

text \<open>
  An object column that lines 63--65 leave an object column: it is one of the three
  categorical columns, or one of its cells is no number.
\<close>

definition stays_object :: "parser \<Rightarrow> string \<times> column \<Rightarrow> bool" where
  "stays_object P e \<longleftrightarrow>
     (\<exists>ys. snd e = ObjCol ys \<and>
        (fst e \<notin> set categorical \<longrightarrow> \<not> list_all (\<lambda>x. parse_cell P x \<noteq> None) ys))"

text \<open>The row of the finished state table for the region \<open>a\<close>,
    in closed form.\<close>

definition summary_row :: "nrow list \<Rightarrow> string \<Rightarrow> merged_row" where
  "summary_row df a =
     \<lparr> m_Area_Name = a,
       m_Total_Crimes = Some (col_sum Total_Crimes (group_rows Area_Name a df)),
       m_Total_Recovered = Some (col_sum Total_Recovered (group_rows Area_Name a df)),
       m_Loss_Value = Some (col_sum Loss_Value (group_rows Area_Name a df)),
       m_Recovery_Rate = Some (np_where_rate (col_sum Total_Crimes (group_rows Area_Name a df))
                                 (col_sum Total_Recovered (group_rows Area_Name a df))) \<rparr>"

section \<open>Grouping facts\<close>



lemma filter_eq_distinct:
  "distinct ks \<Longrightarrow> filter (\<lambda>k. k = a) ks = (if a \<in> set ks then [a] else [])"
  by (induction ks) auto

lemma distinct_group_keys: "distinct (group_keys k df)"
  by (simp add: group_keys_def)

lemma set_group_keys: "set (group_keys k df) = k ` set df"
  by (simp add: group_keys_def)


lemma group_rows_absent: "a \<notin> k ` set df \<Longrightarrow> group_rows k a df = []"
  by (auto simp: group_rows_def filter_empty_conv)

lemma rates_of_key:
  "filter (\<lambda>g. rr_Area_Name g = a) (state_agg_rates df) =
     (if a \<in> Area_Name ` set df
      then [with_recovery_rate
              \<lparr> agg_Area_Name = a,
                agg_Total_Crimes = col_sum Total_Crimes (group_rows Area_Name a df),
                agg_Total_Recovered = col_sum Total_Recovered (group_rows Area_Name a df),
                agg_Loss_Value = col_sum Loss_Value (group_rows Area_Name a df) \<rparr>]
      else [])"
proof -
  have "filter (\<lambda>g. rr_Area_Name g = a) (state_agg_rates df) =
        map (\<lambda>a. with_recovery_rate
              \<lparr> agg_Area_Name = a,
                agg_Total_Crimes = col_sum Total_Crimes (group_rows Area_Name a df),
                agg_Total_Recovered = col_sum Total_Recovered (group_rows Area_Name a df),
                agg_Loss_Value = col_sum Loss_Value (group_rows Area_Name a df) \<rparr>)
            (filter (\<lambda>k. k = a) (group_keys Area_Name df))"
    by (simp add: state_agg_rates_def state_agg_groupby_def filter_map comp_def
        with_recovery_rate_def)
  then show ?thesis
    by (simp add: filter_eq_distinct distinct_group_keys set_group_keys)
qed

lemma state_agg_rows: "state_agg all_states df = map (summary_row df) all_states"
proof -
  have "(case filter (\<lambda>g. rr_Area_Name g = a) (state_agg_rates df) of
           [] \<Rightarrow> [unmatched a] | ms \<Rightarrow> map (matched a) ms) 
        = (if a \<in> Area_Name ` set df then [matched a (with_recovery_rate
              \<lparr> agg_Area_Name = a,
                agg_Total_Crimes = col_sum Total_Crimes (group_rows Area_Name a df),
                agg_Total_Recovered = col_sum Total_Recovered (group_rows Area_Name a df),
                agg_Loss_Value = col_sum Loss_Value (group_rows Area_Name a df) \<rparr>)] else [unmatched a])" for a
    by (simp add: rates_of_key)
  moreover have "fill_row (matched a (with_recovery_rate
              \<lparr> agg_Area_Name = a,
                agg_Total_Crimes = col_sum Total_Crimes (group_rows Area_Name a df),
                agg_Total_Recovered = col_sum Total_Recovered (group_rows Area_Name a df),
                agg_Loss_Value = col_sum Loss_Value (group_rows Area_Name a df) \<rparr>)) = summary_row df a" for a
    by (simp add: fill_row_def matched_def with_recovery_rate_def summary_row_def fillna0_def)
  moreover have "a \<notin> Area_Name ` set df \<Longrightarrow> fill_row (unmatched a) = summary_row df a" for a
    by (simp add: fill_row_def unmatched_def summary_row_def fillna0_def group_rows_absent
        col_sum_def np_where_rate_def)
  ultimately show ?thesis
    unfolding state_agg_def merge_left_def
    by (induction all_states) auto
qed


lemma catalog_sorted_distinct:
  "get_all_states_df geo = Inr all_states \<Longrightarrow> distinct all_states \<and> sorted all_states"
  by (auto simp: get_all_states_df_def split: sum.splits)


lemma series_sum_Total_Recovered:
  "series_sum (map m_Total_Recovered (state_agg all_states df)) =
   sum_list (map (\<lambda>a. col_sum Total_Recovered (group_rows Area_Name a df)) all_states)"
  by (simp add: state_agg_rows series_sum_def comp_def summary_row_def)

lemma group_rows_drop:
  "k r \<noteq> a \<Longrightarrow> group_rows k a (xs @ r # ys) = group_rows k a (xs @ ys)"
  by (simp add: group_rows_def)

lemma summary_row_drop:
  "Area_Name r \<noteq> a \<Longrightarrow> summary_row (xs @ r # ys) a = summary_row (xs @ ys) a"
  by (simp add: summary_row_def group_rows_drop)

text \<open>
  Claim C9. The grouped table of lines 145--158 has one row for each region that occurs in
  the filtered rows, in ascending order of the name, and no other row. The row of a region
  carries the sum of \<^verbatim>\<open>Total_Crimes\<close> and the sum of \<^verbatim>\<open>Total_Recovered\<close> over the rows of
  that region, and its \<^verbatim>\<open>Recovery_Rate\<close> is the second sum divided by the first when the first
  is positive, and 0 otherwise: the rate is recomputed from the two sums, and the
  \<^verbatim>\<open>Recovery_Rate\<close> cells of the rows are not read.
\<close>

theorem C9_rate:
  "map rr_Area_Name (state_agg_rates df) = sort (remdups (map Area_Name df)) \<and>
   (\<forall>g \<in> set (state_agg_rates df).
      rr_Total_Crimes g =
        (\<Sum>r\<leftarrow>filter (\<lambda>r. Area_Name r = rr_Area_Name g) df. Total_Crimes r) \<and>
      rr_Total_Recovered g =
        (\<Sum>r\<leftarrow>filter (\<lambda>r. Area_Name r = rr_Area_Name g) df. Total_Recovered r) \<and>
      rr_Recovery_Rate g =
        (if (\<Sum>r\<leftarrow>filter (\<lambda>r. Area_Name r = rr_Area_Name g) df. Total_Crimes r) > 0
         then (\<Sum>r\<leftarrow>filter (\<lambda>r. Area_Name r = rr_Area_Name g) df. Total_Recovered r) /
              (\<Sum>r\<leftarrow>filter (\<lambda>r. Area_Name r = rr_Area_Name g) df. Total_Crimes r)
         else 0))"
proof
  show "map rr_Area_Name (state_agg_rates df) = sort (remdups (map Area_Name df))"
    by (simp add: state_agg_rates_def state_agg_groupby_def with_recovery_rate_def
        group_keys_def comp_def)
next
  show "\<forall>g \<in> set (state_agg_rates df).
      rr_Total_Crimes g =
        (\<Sum>r\<leftarrow>filter (\<lambda>r. Area_Name r = rr_Area_Name g) df. Total_Crimes r) \<and>
      rr_Total_Recovered g =
        (\<Sum>r\<leftarrow>filter (\<lambda>r. Area_Name r = rr_Area_Name g) df. Total_Recovered r) \<and>
      rr_Recovery_Rate g =
        (if (\<Sum>r\<leftarrow>filter (\<lambda>r. Area_Name r = rr_Area_Name g) df. Total_Crimes r) > 0
         then (\<Sum>r\<leftarrow>filter (\<lambda>r. Area_Name r = rr_Area_Name g) df. Total_Recovered r) /
              (\<Sum>r\<leftarrow>filter (\<lambda>r. Area_Name r = rr_Area_Name g) df. Total_Crimes r)
         else 0)"
    by (auto simp: state_agg_rates_def state_agg_groupby_def with_recovery_rate_def
        np_where_rate_def group_rows_def col_sum_def)
qed

text \<open>
  Claim C10. A filtered row whose region is not in the catalog changes nothing in the state
  table, and so nothing in the three figures computed from it: the left join drops it, and
  no error is raised.
\<close>

theorem C10_drop:
  "Area_Name r \<notin> set all_states \<Longrightarrow>
   state_agg all_states (xs @ r # ys) = state_agg all_states (xs @ ys) \<and>
   total_crimes (state_agg all_states (xs @ r # ys)) = total_crimes (state_agg all_states (xs @ ys)) \<and>
   total_recovered (state_agg all_states (xs @ r # ys)) = total_recovered (state_agg all_states (xs @ ys)) \<and>
   recovery_rate (state_agg all_states (xs @ r # ys)) = recovery_rate (state_agg all_states (xs @ ys))"
proof -
  assume out: "Area_Name r \<notin> set all_states"
  have "map (summary_row (xs @ r # ys)) all_states = map (summary_row (xs @ ys)) all_states"
  proof (rule map_cong [OF refl])
    fix a assume "a \<in> set all_states"
    with out have "Area_Name r \<noteq> a" by auto
    then show "summary_row (xs @ r # ys) a = summary_row (xs @ ys) a"
      by (rule summary_row_drop)
  qed
  then have "state_agg all_states (xs @ r # ys) = state_agg all_states (xs @ ys)"
    by (simp add: state_agg_rows)
  then show ?thesis by simp
qed



text \<open>
  Claim C5, as amended. The state table has exactly one row for each region of the catalog,
  in the catalog's order. In the row of a region the four numbers are present, and they
  are the sum of \<^verbatim>\<open>Total_Crimes\<close>, the sum of \<^verbatim>\<open>Total_Recovered\<close> and the signed sum of
  \<^verbatim>\<open>Loss_Value\<close> over the filtered rows of that region, and the rate recomputed from the first
  two sums. The two counts and the rate are not negative when no filtered row has a negative
  count; the loss can be negative. For a region with no filtered row all four are 0.
\<close>

theorem C5_amended:
  "get_all_states_df geo = Inr all_states \<Longrightarrow>
   map m_Area_Name (state_agg all_states df) = all_states \<and> distinct all_states \<and>
   (\<forall>r \<in> set (state_agg all_states df).
      \<exists>c v l q. m_Total_Crimes r = Some c \<and> m_Total_Recovered r = Some v \<and>
        m_Loss_Value r = Some l \<and> m_Recovery_Rate r = Some q \<and>
        c = (\<Sum>x\<leftarrow>filter (\<lambda>x. Area_Name x = m_Area_Name r) df. Total_Crimes x) \<and>
        v = (\<Sum>x\<leftarrow>filter (\<lambda>x. Area_Name x = m_Area_Name r) df. Total_Recovered x) \<and>
        l = (\<Sum>x\<leftarrow>filter (\<lambda>x. Area_Name x = m_Area_Name r) df. Loss_Value x) \<and>
        q = (if c > 0 then v / c else 0) \<and>
        ((\<forall>x \<in> set df. Total_Crimes x \<ge> 0 \<and> Total_Recovered x \<ge> 0) \<longrightarrow>
           c \<ge> 0 \<and> v \<ge> 0 \<and> q \<ge> 0) \<and>
        (m_Area_Name r \<notin> Area_Name ` set df \<longrightarrow> c = 0 \<and> v = 0 \<and> l = 0 \<and> q = 0))"
proof -
  assume cat: "get_all_states_df geo = Inr all_states"
  have names: "map m_Area_Name (state_agg all_states df) = all_states"
    by (simp add: state_agg_rows comp_def summary_row_def)
  have nonneg: "(\<forall>x \<in> set df. f x \<ge> 0) \<Longrightarrow> col_sum f (group_rows Area_Name a df) \<ge> 0"
    for f :: "nrow \<Rightarrow> rat" and a
    unfolding col_sum_def group_rows_def by (rule sum_list_nonneg) auto
  have rate: "0 \<le> c \<Longrightarrow> 0 \<le> v \<Longrightarrow> 0 \<le> np_where_rate c v" for c v
    by (simp add: np_where_rate_def)
  have sums: "col_sum f (group_rows Area_Name a df) = (\<Sum>x\<leftarrow>filter (\<lambda>x. Area_Name x = a) df. f x)"
    for f :: "nrow \<Rightarrow> rat" and a
    by (simp add: col_sum_def group_rows_def)
  have rows: "\<exists>c v l q. m_Total_Crimes (summary_row df a) = Some c \<and>
        m_Total_Recovered (summary_row df a) = Some v \<and>
        m_Loss_Value (summary_row df a) = Some l \<and> m_Recovery_Rate (summary_row df a) = Some q \<and>
        c = (\<Sum>x\<leftarrow>filter (\<lambda>x. Area_Name x = m_Area_Name (summary_row df a)) df. Total_Crimes x) \<and>
        v = (\<Sum>x\<leftarrow>filter (\<lambda>x. Area_Name x = m_Area_Name (summary_row df a)) df.
               Total_Recovered x) \<and>
        l = (\<Sum>x\<leftarrow>filter (\<lambda>x. Area_Name x = m_Area_Name (summary_row df a)) df. Loss_Value x) \<and>
        q = (if c > 0 then v / c else 0) \<and>
        ((\<forall>x \<in> set df. Total_Crimes x \<ge> 0 \<and> Total_Recovered x \<ge> 0) \<longrightarrow>
           c \<ge> 0 \<and> v \<ge> 0 \<and> q \<ge> 0) \<and>
        (m_Area_Name (summary_row df a) \<notin> Area_Name ` set df \<longrightarrow>
           c = 0 \<and> v = 0 \<and> l = 0 \<and> q = 0)" for a
  proof (cases "a \<in> Area_Name ` set df")
    case True
    have "0 \<le> np_where_rate (col_sum Total_Crimes (group_rows Area_Name a df))
            (col_sum Total_Recovered (group_rows Area_Name a df))"
      if "\<forall>x \<in> set df. Total_Crimes x \<ge> 0 \<and> Total_Recovered x \<ge> 0"
      using that by (intro rate nonneg) auto
    with True show ?thesis
      by (simp add: summary_row_def nonneg sums [symmetric])
        (simp add: np_where_rate_def)
  next
    case False
    then have "filter (\<lambda>x. Area_Name x = a) df = []"
      by (auto simp: filter_empty_conv)
    with False show ?thesis
      by (simp add: summary_row_def group_rows_def col_sum_def np_where_rate_def)
  qed
  from cat names rows show ?thesis
    by (auto simp: state_agg_rows dest: catalog_sorted_distinct)
qed






lemma geo_example:
  "get_all_states_df [\<lparr> properties = [''NAME_1'' \<mapsto> ''Kerala''] \<rparr>,
      \<lparr> properties = [''NAME_1'' \<mapsto> ''Goa''] \<rparr>,
      \<lparr> properties = [''NAME_1'' \<mapsto> ''Goa''] \<rparr>] = Inr [''Goa'', ''Kerala'']"
  by (simp add: get_all_states_df_def GEO_STATE_NAME_KEY_def)

text \<open>
  Two rows of Goa with crimes 10 and 0 and recovered 5 and 0 give the rate 1/2; two rows of
  Kerala with crimes 10 and 5 and recovered 5 and 4 give 9/15, which is not the mean of
  the two rates 1/2 and 4/5 of the rows.
\<close>

theorem C9_witness:
  "map rr_Area_Name (state_agg_rates
     [\<lparr> Area_Name = ''Kerala'', Year = None, Group_Name = ''Overall'',
        Sub_Group_Name = ''Overall'', Total_Crimes = 10, Total_Recovered = 5, Loss_Value = 0,
        Recovery_Rate = 1/2 \<rparr>,
      \<lparr> Area_Name = ''Goa'', Year = None, Group_Name = ''Overall'',
        Sub_Group_Name = ''Overall'', Total_Crimes = 10, Total_Recovered = 5, Loss_Value = 0,
        Recovery_Rate = 1/2 \<rparr>,
      \<lparr> Area_Name = ''Kerala'', Year = None, Group_Name = ''Overall'',
        Sub_Group_Name = ''Overall'', Total_Crimes = 5, Total_Recovered = 4, Loss_Value = 0,
        Recovery_Rate = 4/5 \<rparr>,
      \<lparr> Area_Name = ''Goa'', Year = None, Group_Name = ''Overall'',
        Sub_Group_Name = ''Overall'', Total_Crimes = 0, Total_Recovered = 0, Loss_Value = 0,
        Recovery_Rate = 0 \<rparr>]) = [''Goa'', ''Kerala''] \<and>
   map rr_Total_Crimes (state_agg_rates
     [\<lparr> Area_Name = ''Kerala'', Year = None, Group_Name = ''Overall'',
        Sub_Group_Name = ''Overall'', Total_Crimes = 10, Total_Recovered = 5, Loss_Value = 0,
        Recovery_Rate = 1/2 \<rparr>,
      \<lparr> Area_Name = ''Goa'', Year = None, Group_Name = ''Overall'',
        Sub_Group_Name = ''Overall'', Total_Crimes = 10, Total_Recovered = 5, Loss_Value = 0,
        Recovery_Rate = 1/2 \<rparr>,
      \<lparr> Area_Name = ''Kerala'', Year = None, Group_Name = ''Overall'',
        Sub_Group_Name = ''Overall'', Total_Crimes = 5, Total_Recovered = 4, Loss_Value = 0,
        Recovery_Rate = 4/5 \<rparr>,
      \<lparr> Area_Name = ''Goa'', Year = None, Group_Name = ''Overall'',
        Sub_Group_Name = ''Overall'', Total_Crimes = 0, Total_Recovered = 0, Loss_Value = 0,
        Recovery_Rate = 0 \<rparr>]) = [10, 15] \<and>
   map rr_Recovery_Rate (state_agg_rates
     [\<lparr> Area_Name = ''Kerala'', Year = None, Group_Name = ''Overall'',
        Sub_Group_Name = ''Overall'', Total_Crimes = 10, Total_Recovered = 5, Loss_Value = 0,
        Recovery_Rate = 1/2 \<rparr>,
      \<lparr> Area_Name = ''Goa'', Year = None, Group_Name = ''Overall'',
        Sub_Group_Name = ''Overall'', Total_Crimes = 10, Total_Recovered = 5, Loss_Value = 0,
        Recovery_Rate = 1/2 \<rparr>,
      \<lparr> Area_Name = ''Kerala'', Year = None, Group_Name = ''Overall'',
        Sub_Group_Name = ''Overall'', Total_Crimes = 5, Total_Recovered = 4, Loss_Value = 0,
        Recovery_Rate = 4/5 \<rparr>,
      \<lparr> Area_Name = ''Goa'', Year = None, Group_Name = ''Overall'',
        Sub_Group_Name = ''Overall'', Total_Crimes = 0, Total_Recovered = 0, Loss_Value = 0,
        Recovery_Rate = 0 \<rparr>]) = [1/2, 3/5]"
proof -
  let ?df = "[\<lparr> Area_Name = ''Kerala'', Year = None, Group_Name = ''Overall'',
        Sub_Group_Name = ''Overall'', Total_Crimes = 10, Total_Recovered = 5, Loss_Value = 0,
        Recovery_Rate = 1/2 \<rparr>,
      \<lparr> Area_Name = ''Goa'', Year = None, Group_Name = ''Overall'',
        Sub_Group_Name = ''Overall'', Total_Crimes = 10, Total_Recovered = 5, Loss_Value = 0,
        Recovery_Rate = 1/2 \<rparr>,
      \<lparr> Area_Name = ''Kerala'', Year = None, Group_Name = ''Overall'',
        Sub_Group_Name = ''Overall'', Total_Crimes = 5, Total_Recovered = 4, Loss_Value = 0,
        Recovery_Rate = 4/5 \<rparr>,
      \<lparr> Area_Name = ''Goa'', Year = None, Group_Name = ''Overall'',
        Sub_Group_Name = ''Overall'', Total_Crimes = 0, Total_Recovered = 0, Loss_Value = 0,
        Recovery_Rate = 0 \<rparr>]"
  from C9_rate [of ?df]
  have names: "map rr_Area_Name (state_agg_rates ?df) = [''Goa'', ''Kerala'']"
    and rows: "\<forall>g \<in> set (state_agg_rates ?df).
      rr_Total_Crimes g =
        (\<Sum>r\<leftarrow>filter (\<lambda>r. Area_Name r = rr_Area_Name g) ?df. Total_Crimes r) \<and>
      rr_Recovery_Rate g =
        (if (\<Sum>r\<leftarrow>filter (\<lambda>r. Area_Name r = rr_Area_Name g) ?df. Total_Crimes r) > 0
         then (\<Sum>r\<leftarrow>filter (\<lambda>r. Area_Name r = rr_Area_Name g) ?df. Total_Recovered r) /
              (\<Sum>r\<leftarrow>filter (\<lambda>r. Area_Name r = rr_Area_Name g) ?df. Total_Crimes r)
         else 0)"
    by simp_all
  from names obtain g1 g2 where l: "state_agg_rates ?df = [g1, g2]"
    and n1: "rr_Area_Name g1 = ''Goa''" and n2: "rr_Area_Name g2 = ''Kerala''"
    by (auto simp: map_eq_Cons_conv)
  from rows l n1 n2 show ?thesis by simp
qed

theorem C10_witness:
  "''Atlantis'' \<notin> set [''Goa'', ''Kerala''] \<and>
   state_agg [''Goa'', ''Kerala''] ([\<lparr> Area_Name = ''Goa'', Year = None,
       Group_Name = ''Overall'', Sub_Group_Name = ''Overall'', Total_Crimes = 4,
       Total_Recovered = 1, Loss_Value = 0,
       Recovery_Rate = 1/4 \<rparr>] @ \<lparr> Area_Name = ''Atlantis'', Year = None,
       Group_Name = ''Overall'', Sub_Group_Name = ''Overall'', Total_Crimes = 7,
       Total_Recovered = 7, Loss_Value = 0,
       Recovery_Rate = 1 \<rparr> # [\<lparr> Area_Name = ''Kerala'', Year = None,
       Group_Name = ''Overall'', Sub_Group_Name = ''Overall'', Total_Crimes = 6,
       Total_Recovered = 0, Loss_Value = 0, Recovery_Rate = 0 \<rparr>]) = state_agg [''Goa'',
       ''Kerala''] ([\<lparr> Area_Name = ''Goa'', Year = None, Group_Name = ''Overall'',
       Sub_Group_Name = ''Overall'', Total_Crimes = 4, Total_Recovered = 1, Loss_Value = 0,
       Recovery_Rate = 1/4 \<rparr>] @ [\<lparr> Area_Name = ''Kerala'', Year = None,
       Group_Name = ''Overall'', Sub_Group_Name = ''Overall'', Total_Crimes = 6,
       Total_Recovered = 0, Loss_Value = 0, Recovery_Rate = 0 \<rparr>]) \<and>
   total_crimes (state_agg [''Goa'', ''Kerala''] ([\<lparr> Area_Name = ''Goa'', Year = None,
       Group_Name = ''Overall'', Sub_Group_Name = ''Overall'', Total_Crimes = 4,
       Total_Recovered = 1, Loss_Value = 0,
       Recovery_Rate = 1/4 \<rparr>] @ \<lparr> Area_Name = ''Atlantis'', Year = None,
       Group_Name = ''Overall'', Sub_Group_Name = ''Overall'', Total_Crimes = 7,
       Total_Recovered = 7, Loss_Value = 0,
       Recovery_Rate = 1 \<rparr> # [\<lparr> Area_Name = ''Kerala'', Year = None,
       Group_Name = ''Overall'', Sub_Group_Name = ''Overall'', Total_Crimes = 6,
       Total_Recovered = 0, Loss_Value = 0, Recovery_Rate = 0 \<rparr>])) = 10 \<and>
   col_sum Total_Crimes ([\<lparr> Area_Name = ''Goa'', Year = None, Group_Name = ''Overall'',
       Sub_Group_Name = ''Overall'', Total_Crimes = 4, Total_Recovered = 1, Loss_Value = 0,
       Recovery_Rate = 1/4 \<rparr>] @ \<lparr> Area_Name = ''Atlantis'', Year = None,
       Group_Name = ''Overall'', Sub_Group_Name = ''Overall'', Total_Crimes = 7,
       Total_Recovered = 7, Loss_Value = 0,
       Recovery_Rate = 1 \<rparr> # [\<lparr> Area_Name = ''Kerala'', Year = None,
       Group_Name = ''Overall'', Sub_Group_Name = ''Overall'', Total_Crimes = 6,
       Total_Recovered = 0, Loss_Value = 0, Recovery_Rate = 0 \<rparr>]) = 17"
proof -
  have h: "Area_Name (\<lparr> Area_Name = ''Atlantis'', Year = None, Group_Name = ''Overall'',
      Sub_Group_Name = ''Overall'', Total_Crimes = 7, Total_Recovered = 7, Loss_Value = 0,
      Recovery_Rate = 1 \<rparr>) \<notin> set [''Goa'', ''Kerala'']" by simp
  have "total_crimes (state_agg [''Goa'', ''Kerala''] ([\<lparr> Area_Name = ''Goa'',
      Year = None, Group_Name = ''Overall'', Sub_Group_Name = ''Overall'', Total_Crimes = 4,
      Total_Recovered = 1, Loss_Value = 0,
      Recovery_Rate = 1/4 \<rparr>] @ [\<lparr> Area_Name = ''Kerala'', Year = None,
      Group_Name = ''Overall'', Sub_Group_Name = ''Overall'', Total_Crimes = 6,
      Total_Recovered = 0, Loss_Value = 0, Recovery_Rate = 0 \<rparr>])) = 10"
    by (simp add: state_agg_rows summary_row_def total_crimes_def series_sum_def py_int_def
        group_rows_def col_sum_def)
  with C10_drop [OF h, of "[\<lparr> Area_Name = ''Goa'', Year = None, Group_Name = ''Overall'',
      Sub_Group_Name = ''Overall'', Total_Crimes = 4, Total_Recovered = 1, Loss_Value = 0,
      Recovery_Rate = 1/4 \<rparr>]" "[\<lparr> Area_Name = ''Kerala'', Year = None,
      Group_Name = ''Overall'', Sub_Group_Name = ''Overall'', Total_Crimes = 6,
      Total_Recovered = 0, Loss_Value = 0, Recovery_Rate = 0 \<rparr>]"] show ?thesis
    by (simp add: col_sum_def)
qed



text \<open>
  Claim C5 as stated fails: a row of Goa with a loss of -10 (more value recovered than stolen)
  gives the state table a negative \<^verbatim>\<open>Loss_Value\<close>.
\<close>

theorem C5_counterexample:
  "get_all_states_df [\<lparr> properties = [''NAME_1'' \<mapsto> ''Kerala''] \<rparr>,
      \<lparr> properties = [''NAME_1'' \<mapsto> ''Goa''] \<rparr>,
      \<lparr> properties = [''NAME_1'' \<mapsto> ''Goa''] \<rparr>] = Inr [''Goa'',
      ''Kerala''] \<and>
   map m_Loss_Value (state_agg [''Goa'', ''Kerala''] [\<lparr> Area_Name = ''Goa'', Year = None,
       Group_Name = ''Overall'', Sub_Group_Name = ''Overall'', Total_Crimes = 4,
       Total_Recovered = 1, Loss_Value = - 10, Recovery_Rate = 1/4 \<rparr>]) = [Some (- 10),
       Some 0] \<and>
   (- 10 :: rat) < 0"
  by (simp add: geo_example state_agg_rows summary_row_def group_rows_def col_sum_def)

theorem C5_witness:
  "get_all_states_df [\<lparr> properties = [''NAME_1'' \<mapsto> ''Kerala''] \<rparr>,
      \<lparr> properties = [''NAME_1'' \<mapsto> ''Goa''] \<rparr>,
      \<lparr> properties = [''NAME_1'' \<mapsto> ''Goa''] \<rparr>] = Inr [''Goa'',
      ''Kerala''] \<and>
   map m_Area_Name (state_agg [''Goa'', ''Kerala''] [\<lparr> Area_Name = ''Goa'', Year = None,
       Group_Name = ''Overall'', Sub_Group_Name = ''Overall'', Total_Crimes = 4,
       Total_Recovered = 1, Loss_Value = - 10, Recovery_Rate = 1/4 \<rparr>]) = [''Goa'',
       ''Kerala''] \<and>
   state_agg [''Goa'', ''Kerala''] [\<lparr> Area_Name = ''Goa'', Year = None,
       Group_Name = ''Overall'', Sub_Group_Name = ''Overall'', Total_Crimes = 4,
       Total_Recovered = 1, Loss_Value = - 10, Recovery_Rate = 1/4 \<rparr>] ! 1 =
     \<lparr> m_Area_Name = ''Kerala'', m_Total_Crimes = Some 0, m_Total_Recovered = Some 0,
       m_Loss_Value = Some 0, m_Recovery_Rate = Some 0 \<rparr> \<and>
   state_agg [''Goa'', ''Kerala''] [\<lparr> Area_Name = ''Goa'', Year = None,
       Group_Name = ''Overall'', Sub_Group_Name = ''Overall'', Total_Crimes = 4,
       Total_Recovered = 1, Loss_Value = - 10, Recovery_Rate = 1/4 \<rparr>] ! 0 =
     \<lparr> m_Area_Name = ''Goa'', m_Total_Crimes = Some 4, m_Total_Recovered = Some 1,
       m_Loss_Value = Some (- 10), m_Recovery_Rate = Some (1 / 4) \<rparr>"
  using C5_amended [OF geo_example, of "[\<lparr> Area_Name = ''Goa'', Year = None,
      Group_Name = ''Overall'', Sub_Group_Name = ''Overall'', Total_Crimes = 4,
      Total_Recovered = 1, Loss_Value = - 10, Recovery_Rate = 1/4 \<rparr>]"]
  by (simp add: geo_example state_agg_rows summary_row_def group_rows_def col_sum_def
      np_where_rate_def)



section \<open>The normalizer\<close>

lemma get_col_None: "get_col df c = None \<longleftrightarrow> c \<notin> set (columns df)"
  by (simp add: get_col_def columns_def map_of_eq_None_iff)

lemma get_col_in: "get_col df c = Some x \<Longrightarrow> (c, x) \<in> set df"
  by (simp add: get_col_def map_of_SomeD)

lemma in_columns_get_col: "c \<in> set (columns df) \<Longrightarrow> \<exists>x. get_col df c = Some x"
  using get_col_None [of df c] by auto

lemma map_of_update_col:
  "map_of (map (\<lambda>(n, x). if n = c then (n, v) else (n, x)) df) c' =
     (if c' = c then (if c \<in> fst ` set df then Some v else None) else map_of df c')"
  by (induction df) force+

lemma get_col_set_col:
  "get_col (set_col df c v) c' = (if c' = c then Some v else get_col df c')"
proof (cases "c \<in> set (columns df)")
  case True
  then show ?thesis
    by (simp add: get_col_def set_col_def columns_def map_of_update_col)
next
  case False
  then have "map_of df c = None"
    by (simp add: columns_def map_of_eq_None_iff)
  with False show ?thesis
    by (auto simp: get_col_def set_col_def map_add_def split: option.splits)
qed

lemma columns_set_col:
  "columns (set_col df c v) = (if c \<in> set (columns df) then columns df else columns df @ [c])"
  by (auto simp: set_col_def columns_def intro!: map_idI split: prod.splits)

lemma set_columns_set_col: "set (columns (set_col df c v)) = insert c (set (columns df))"
  by (auto simp: columns_set_col)

lemma columns_strip_spaces: "columns (strip_spaces df) = columns df"
  by (simp add: strip_spaces_def columns_def comp_def case_prod_unfold)

lemma columns_convert_numeric: "columns (convert_numeric P df) = columns df"
  by (induction df) (auto simp: convert_numeric_def columns_def)

lemma columns_year:
  "year_to_Int64 P df = Inr d \<Longrightarrow> columns d = columns df"
  by (auto simp: year_to_Int64_def columns_set_col get_col_None [symmetric]
      split: option.splits sum.splits)

lemma find_None_aliases:
  "\<forall>alt \<in> set area_aliases. alt \<notin> set (columns df) \<Longrightarrow>
   find (\<lambda>alt. alt \<in> set (columns df)) area_aliases = None"
  by (simp add: find_None_iff)

lemma set_columns_standardize_area:
  "set (columns (standardize_area df)) \<subseteq> insert ''Area_Name'' (set (columns df))"
  by (auto simp: standardize_area_def rename_def columns_def split: option.splits if_splits)

lemma base_col_in: "ncols \<noteq> [] \<Longrightarrow> base_col ncols \<in> set ncols"
proof -
  assume ne: "ncols \<noteq> []"
  show ?thesis
  proof (cases "filter is_preferred ncols")
    case Nil
    with ne show ?thesis by (simp add: base_col_def)
  next
    case (Cons p ps)
    then have "p \<in> set (filter is_preferred ncols)" by simp
    then have "p \<in> set ncols" by simp
    with Cons show ?thesis by (simp add: base_col_def)
  qed
qed

lemma numeric_cols_subset: "set (numeric_cols df) \<subseteq> set (columns df)"
  by (auto simp: numeric_cols_def columns_def)

lemma set_columns_generic:
  "generic P fp df = Inr d \<Longrightarrow>
   set (columns d) = set (columns df) \<union>
     {''Total_Crimes'', ''Total_Recovered'', ''Loss_Value'', ''Recovery_Rate''}"
  by (auto simp: generic_def Let_def set_columns_set_col split: if_splits option.splits)

lemma set_columns_property_crime:
  "property_crime P df = Inr d \<Longrightarrow>
   set (columns d) = set (columns df) \<union>
     {''Total_Crimes'', ''Total_Recovered'', ''Total_Value_Stolen'', ''Total_Value_Recovered'',
      ''Loss_Value'', ''Recovery_Rate''}"
  by (auto simp: property_crime_def Let_def set_columns_set_col get_numeric_filled_def
      split: if_splits option.splits sum.splits)

lemma set_columns_standardize_groups:
  "set (columns (standardize_groups df)) =
   set (columns df) \<union> {''Group_Name'', ''Sub_Group_Name''}"
  by (auto simp: standardize_groups_def default_column_def set_columns_set_col)


lemma standardize_area_no_alias:
  "\<forall>alt \<in> set area_aliases. alt \<notin> set (columns df) \<Longrightarrow> standardize_area df = df"
  by (simp add: standardize_area_def find_None_aliases)

lemma columns_coerced_no_alias:
  assumes "\<forall>alt \<in> set area_aliases. alt \<notin> set (columns df)" and "coerced P df = Inr d"
  shows "columns d = columns df"
proof -
  from assms(2) obtain df2 where y: "year_to_Int64 P (strip_spaces df) = Inr df2"
    and d: "d = convert_numeric P (standardize_area df2)"
    by (auto simp: coerced_def split: sum.splits)
  from y have c2: "columns df2 = columns df"
    by (simp add: columns_year columns_strip_spaces)
  with assms(1) have "standardize_area df2 = df2"
    by (simp add: standardize_area_no_alias)
  with d c2 show ?thesis by (simp add: columns_convert_numeric)
qed

lemma generic_errors:
  "generic P fp df = Inl e \<Longrightarrow> e = ValueError (''No numeric columns found in dataset: '' @ fp)"
proof -
  assume g: "generic P fp df = Inl e"
  show ?thesis
  proof (cases "numeric_cols df = []")
    case True
    with g show ?thesis by (simp add: generic_def)
  next
    case False
    then have "base_col (numeric_cols df) \<in> set (columns df)"
      using base_col_in numeric_cols_subset by blast
    then obtain x where "get_col df (base_col (numeric_cols df)) = Some x"
      using in_columns_get_col by blast
    with g False show ?thesis by (simp add: generic_def Let_def)
  qed
qed

lemma property_crime_errors:
  "''Cases_Property_Stolen'' \<in> set (columns df) \<Longrightarrow> property_crime P df = Inl e \<Longrightarrow>
   e = AttributeError ''int object has no attribute fillna''"
  by (auto simp: property_crime_def Let_def get_numeric_filled_def get_col_None
      split: option.splits sum.splits)

lemma coerced_errors:
  "coerced P df = Inl e \<Longrightarrow> e = TypeError ''cannot safely cast non-equivalent float64 to int64''"
  by (auto simp: coerced_def year_to_Int64_def astype_Int64_def
      split: option.splits sum.splits if_splits)

lemma no_area_fails:
  assumes "''Area_Name'' \<notin> set (columns d)"
    and "(if ''Cases_Property_Stolen'' \<in> set (columns d) then property_crime P d
          else generic P fp d) = Inr d5"
  shows "standardize_state_names (standardize_groups d5) = Inl (KeyError ''Area_Name'')"
proof -
  from assms have "''Area_Name'' \<notin> set (columns d5)"
    by (auto simp: set_columns_generic set_columns_property_crime split: if_splits)
  then have "''Area_Name'' \<notin> set (columns (standardize_groups d5))"
    by (simp add: set_columns_standardize_groups)
  then show ?thesis
    by (simp add: standardize_state_names_def get_col_None [symmetric])
qed

lemma no_area_column_fails:
  assumes "''Area_Name'' \<notin> set (columns df)"
    and "\<forall>alt \<in> set area_aliases. alt \<notin> set (columns df)"
  shows "(\<exists>e. load_data P fp df = Inl e \<and>
            e \<in> {KeyError ''Area_Name'',
                 ValueError (''No numeric columns found in dataset: '' @ fp),
                 AttributeError ''int object has no attribute fillna'',
                 TypeError ''cannot safely cast non-equivalent float64 to int64''}) \<and>
         (\<forall>d. coerced P df = Inr d \<and> ''Cases_Property_Stolen'' \<notin> set (columns d) \<and>
              numeric_cols d \<noteq> [] \<longrightarrow>
              load_data P fp df = Inl (KeyError ''Area_Name''))"
proof (cases "coerced P df")
  case (Inl e)
  then show ?thesis by (auto simp: load_data_def dest: coerced_errors)
next
  case (Inr d)
  with assms have area: "''Area_Name'' \<notin> set (columns d)"
    by (simp add: columns_coerced_no_alias)
  let ?kind = "if ''Cases_Property_Stolen'' \<in> set (columns d) then property_crime P d
               else generic P fp d"
  show ?thesis
  proof (cases ?kind)
    case e: (Inl e)
    then have "e = ValueError (''No numeric columns found in dataset: '' @ fp) \<or>
               e = AttributeError ''int object has no attribute fillna''"
      by (auto dest: generic_errors property_crime_errors split: if_splits)
    moreover have "load_data P fp df = Inl e"
      using Inr e by (simp add: load_data_def)
    moreover have "\<not> (''Cases_Property_Stolen'' \<notin> set (columns d) \<and> numeric_cols d \<noteq> [])"
    proof
      assume a: "''Cases_Property_Stolen'' \<notin> set (columns d) \<and> numeric_cols d \<noteq> []"
      then have "base_col (numeric_cols d) \<in> set (columns d)"
        using base_col_in numeric_cols_subset by blast
      then obtain x where "get_col d (base_col (numeric_cols d)) = Some x"
        using in_columns_get_col by blast
      with a e show False by (simp add: generic_def Let_def)
    qed
    ultimately show ?thesis using Inr by auto
  next
    case r: (Inr d5)
    from no_area_fails [OF area r] Inr r
    have "load_data P fp df = Inl (KeyError ''Area_Name'')"
      by (simp add: load_data_def)
    then show ?thesis by simp
  qed
qed

lemma in_columns_rename:
  "c \<noteq> old \<Longrightarrow> c \<noteq> new \<Longrightarrow> c \<in> set (columns (rename old new df)) \<longleftrightarrow> c \<in> set (columns df)"
  by (force simp: rename_def columns_def image_iff split: if_splits)

lemma find_alias_in:
  "find (\<lambda>alt. alt \<in> set (columns df)) area_aliases = Some alt \<Longrightarrow> alt \<in> set area_aliases"
  by (auto simp: find_Some_iff)

lemma cps_standardize_area:
  "''Cases_Property_Stolen'' \<in> set (columns (standardize_area df)) \<longleftrightarrow>
   ''Cases_Property_Stolen'' \<in> set (columns df)"
proof (cases "find (\<lambda>alt. alt \<in> set (columns df)) area_aliases")
  case None
  then show ?thesis by (simp add: standardize_area_def)
next
  case (Some alt)
  then have "alt \<in> set area_aliases" by (rule find_alias_in)
  then have "''Cases_Property_Stolen'' \<noteq> alt" by (auto simp: area_aliases_def)
  with Some show ?thesis by (simp add: standardize_area_def in_columns_rename)
qed

lemma cps_coerced:
  "coerced P df = Inr d \<Longrightarrow>
   ''Cases_Property_Stolen'' \<in> set (columns d) \<longleftrightarrow> ''Cases_Property_Stolen'' \<in> set (columns df)"
  by (auto simp: coerced_def columns_convert_numeric cps_standardize_area columns_year
      columns_strip_spaces split: sum.splits)

lemma no_numeric_cols_fails:
  assumes "''Cases_Property_Stolen'' \<notin> set (columns df)"
    and "coerced P df = Inr d" and "numeric_cols d = []"
  shows "load_data P file_path df =
         Inl (ValueError (''No numeric columns found in dataset: '' @ file_path))"
  using assms by (simp add: load_data_def cps_coerced generic_def)



lemma starts_with_iff: "starts_with p s \<longleftrightarrow> (\<exists>post. s = p @ post)"
proof (induction p s rule: starts_with.induct)
  case (3 p ps c cs)
  then show ?case by (simp only: starts_with.simps append_Cons list.inject) blast
qed simp_all

lemma py_in_iff: "py_in sub s \<longleftrightarrow> (\<exists>pre post. s = pre @ sub @ post)"
proof (induction s)
  case Nil
  then show ?case by simp
next
  case (Cons c cs)
  show ?case
  proof
    assume "py_in sub (c # cs)"
    then consider "starts_with sub (c # cs)" | "py_in sub cs"
      by (simp only: py_in.simps) blast
    then show "\<exists>pre post. c # cs = pre @ sub @ post"
    proof cases
      case 1
      then obtain post where "c # cs = sub @ post" unfolding starts_with_iff by blast
      then have "c # cs = [] @ sub @ post" by simp
      then show ?thesis by blast
    next
      case 2
      with Cons obtain pre post where "cs = pre @ sub @ post" by blast
      then have "c # cs = (c # pre) @ sub @ post" by simp
      then show ?thesis by blast
    qed
  next
    assume "\<exists>pre post. c # cs = pre @ sub @ post"
    then obtain pre post where eq: "c # cs = pre @ sub @ post" by blast
    show "py_in sub (c # cs)"
    proof (cases pre)
      case Nil
      with eq have "c # cs = sub @ post" by simp
      then have "starts_with sub (c # cs)" unfolding starts_with_iff by blast
      then show ?thesis by simp
    next
      case (Cons a pre')
      with eq have "cs = pre' @ sub @ post" by simp
      with Cons.IH have "py_in sub cs" by blast
      then show ?thesis by simp
    qed
  qed
qed


lemma filter_first_index:
  assumes "filter Q xs = p # ps"
  shows "\<exists>i<length xs. xs ! i = p \<and> Q p \<and> (\<forall>j<i. \<not> Q (xs ! j))"
proof -
  from assms obtain us vs where xs: "xs = us @ p # vs" and us: "\<forall>u\<in>set us. \<not> Q u" and p: "Q p"
    unfolding filter_eq_Cons_iff by blast
  have "length us < length xs" by (simp add: xs)
  moreover have "xs ! length us = p" by (simp add: xs)
  moreover have "\<forall>j<length us. \<not> Q (xs ! j)"
    using us by (simp add: xs nth_append)
  ultimately show ?thesis using p by blast
qed

lemma base_col_first:
  assumes "ncols \<noteq> []"
  shows "\<exists>i<length ncols. base_col ncols = ncols ! i \<and>
           (if \<exists>c\<in>set ncols. is_preferred c
            then is_preferred (ncols ! i) \<and> (\<forall>j<i. \<not> is_preferred (ncols ! j))
            else i = 0)"
proof (cases "filter is_preferred ncols")
  case Nil
  then have none: "\<not> (\<exists>c\<in>set ncols. is_preferred c)" by (simp add: filter_empty_conv)
  from Nil assms have "base_col ncols = ncols ! 0"
    by (simp add: base_col_def hd_conv_nth)
  moreover from assms have "0 < length ncols" by simp
  ultimately show ?thesis using none by (intro exI [of _ 0]) simp
next
  case (Cons p ps)
  from filter_first_index [OF Cons]
  obtain i where i: "i < length ncols" "ncols ! i = p" "is_preferred p"
      "\<forall>j<i. \<not> is_preferred (ncols ! j)"
    by blast
  from Cons have b: "base_col ncols = p" by (simp add: base_col_def)
  from i have ex: "\<exists>c\<in>set ncols. is_preferred c" using nth_mem by blast
  show ?thesis using i b ex by (intro exI [of _ i]) simp
qed


lemma get_col_generic_Total_Crimes:
  "generic P fp d = Inr d5 \<Longrightarrow> get_col d (base_col (numeric_cols d)) = Some base \<Longrightarrow>
   get_col d5 ''Total_Crimes'' = Some (NumCol (map fillna0 (to_numeric_coerce P base)))"
  by (auto simp: generic_def Let_def get_col_set_col split: if_splits)

lemma get_col_default_column:
  "c' \<noteq> c \<Longrightarrow> get_col (default_column c df) c' = get_col df c'"
  by (simp add: default_column_def get_col_set_col)

lemma get_col_standardize_groups:
  "c \<noteq> ''Group_Name'' \<Longrightarrow> c \<noteq> ''Sub_Group_Name'' \<Longrightarrow>
   get_col (standardize_groups df) c = get_col df c"
  by (simp add: standardize_groups_def get_col_default_column)

lemma get_col_standardize_state_names:
  "standardize_state_names df = Inr out \<Longrightarrow> c \<noteq> ''Area_Name'' \<Longrightarrow>
   get_col out c = get_col df c"
  by (auto simp: standardize_state_names_def get_col_set_col split: option.splits)

lemma get_col_finish:
  "standardize_state_names (standardize_groups df) = Inr out \<Longrightarrow>
   c \<noteq> ''Area_Name'' \<Longrightarrow> c \<noteq> ''Group_Name'' \<Longrightarrow> c \<noteq> ''Sub_Group_Name'' \<Longrightarrow>
   get_col out c = get_col df c"
  by (simp add: get_col_standardize_state_names get_col_standardize_groups)





lemmas frame_defs =
  columns_def get_col_def set_col_def nrows_def strip_spaces_def strip_column_def
  str_strip_def is_space_def astype_str_def

lemmas coerced_defs =
  coerced_def year_to_Int64_def astype_Int64_def is_integer_def standardize_area_def
  area_aliases_def rename_def convert_numeric_def categorical_def to_numeric_ignore_def
  to_numeric_coerce_def parse_cell_def coerce_cell_def

lemmas derive_defs =
  property_crime_def get_numeric_filled_def fillna0_def series_sub_def np_where_row_rate_def
  generic_def numeric_cols_def base_col_def zeros_def is_preferred_def lower_def
  py_lower_char_def

lemmas finish_defs =
  standardize_groups_def default_column_def standardize_state_names_def replace_column_def
  replace_value_def STATE_MAP_def

lemma ex_pref1: "\<not> is_preferred ''Murders_Reported''"
  by (simp add: is_preferred_def lower_def py_lower_char_def)

lemma ex_pref2: "is_preferred ''Total_Cases'' \<and> is_preferred ''CRIME HEAD''"
  by (simp add: is_preferred_def lower_def py_lower_char_def)


lemma columns_image: "set (columns df) = fst ` set df"
  by (simp add: columns_def)

lemma aliases_literal:
  "set area_aliases = {''STATE/UT'', ''State/UT'', ''State'', ''STATE'', ''District'',
      ''DISTRICT''}"
  by (simp add: area_aliases_def)

lemma categorical_literal:
  "set categorical = {''Area_Name'', ''Group_Name'', ''Sub_Group_Name''}"
  by (simp add: categorical_def)

lemma year_absent: "''Year'' \<notin> fst ` set df \<Longrightarrow> year_to_Int64 P df = Inr df"
  using get_col_None [of df "''Year''"] by (simp add: year_to_Int64_def columns_image)

lemma coerced_no_year:
  "''Year'' \<notin> fst ` set df \<Longrightarrow>
   coerced P df = Inr (convert_numeric P (standardize_area (strip_spaces df)))"
proof -
  assume "''Year'' \<notin> fst ` set df"
  then have "''Year'' \<notin> fst ` set (strip_spaces df)"
    by (metis columns_image columns_strip_spaces)
  then show ?thesis by (simp add: coerced_def year_absent)
qed

lemma NumCol_strip_spaces: "(n, NumCol xs) \<in> set df \<Longrightarrow> (n, NumCol xs) \<in> set (strip_spaces df)"
  by (force simp: strip_spaces_def strip_column_def)

lemma NumCol_convert_numeric:
  "(n, NumCol xs) \<in> set df \<Longrightarrow> (n, NumCol xs) \<in> set (convert_numeric P df)"
  by (force simp: convert_numeric_def to_numeric_ignore_def)

lemma NumCol_numeric_cols: "(n, NumCol xs) \<in> set df \<Longrightarrow> numeric_cols df \<noteq> []"
  by (force simp: numeric_cols_def filter_empty_conv)

text \<open>
  Claim C1, as amended. A table with no column \<^verbatim>\<open>Area_Name\<close> and none of the six aliases is never
  normalized: \<^verbatim>\<open>load_data\<close> raises one of four errors. No error is raised where the region column
  is looked for (lines 55--60); the missing column is noticed by the last statement only (line
  110), as a \<^verbatim>\<open>KeyError\<close>, unless an earlier statement has failed. For a table with no year
  column, no stolen-cases column and some numeric column, the error is that \<^verbatim>\<open>KeyError\<close>.
\<close>

theorem C1_amended:
  assumes "''Area_Name'' \<notin> fst ` set df"
    and "\<forall>alt \<in> {''STATE/UT'', ''State/UT'', ''State'', ''STATE'', ''District'',
        ''DISTRICT''}.
           alt \<notin> fst ` set df"
  shows "(\<exists>e \<in> {KeyError ''Area_Name'',
                 ValueError (''No numeric columns found in dataset: '' @ file_path),
                 AttributeError ''int object has no attribute fillna'',
                 TypeError ''cannot safely cast non-equivalent float64 to int64''}.
            load_data P file_path df = Inl e) \<and>
         (''Year'' \<notin> fst ` set df \<and> ''Cases_Property_Stolen'' \<notin> fst ` set df \<and>
          (\<exists>n xs. (n, NumCol xs) \<in> set df) \<longrightarrow>
            load_data P file_path df = Inl (KeyError ''Area_Name''))"
proof -
  from assms have a: "''Area_Name'' \<notin> set (columns df)"
    and b: "\<forall>alt \<in> set area_aliases. alt \<notin> set (columns df)"
    by (simp_all add: columns_image aliases_literal)
  note main = no_area_column_fails [OF a b, of P file_path]
  from main have 1: "\<exists>e \<in> {KeyError ''Area_Name'',
                 ValueError (''No numeric columns found in dataset: '' @ file_path),
                 AttributeError ''int object has no attribute fillna'',
                 TypeError ''cannot safely cast non-equivalent float64 to int64''}.
            load_data P file_path df = Inl e"
    by blast
  have 2: "load_data P file_path df = Inl (KeyError ''Area_Name'')"
    if y: "''Year'' \<notin> fst ` set df" and k: "''Cases_Property_Stolen'' \<notin> fst ` set df"
      and n: "(n, NumCol xs) \<in> set df" for n xs
  proof -
    let ?d = "convert_numeric P (standardize_area (strip_spaces df))"
    from y have c: "coerced P df = Inr ?d" by (rule coerced_no_year)
    from b have "standardize_area (strip_spaces df) = strip_spaces df"
      by (intro standardize_area_no_alias) (simp add: columns_strip_spaces)
    with n have "(n, NumCol xs) \<in> set ?d"
      by (simp add: NumCol_convert_numeric NumCol_strip_spaces)
    then have nn: "numeric_cols ?d \<noteq> []" by (rule NumCol_numeric_cols)
    from k cps_coerced [OF c] have "''Cases_Property_Stolen'' \<notin> set (columns ?d)"
      by (simp add: columns_image)
    with main c nn show ?thesis by blast
  qed
  from 1 2 show ?thesis by blast
qed


lemma numeric_cols_all_object:
  "\<forall>(n, c) \<in> set d. \<exists>xs. c = ObjCol xs \<Longrightarrow> numeric_cols d = []"
  by (force simp: numeric_cols_def filter_empty_conv)

lemma stays_object_strip:
  assumes "\<forall>(n, c) \<in> set df. \<exists>xs. c = ObjCol xs \<and>
             (n \<notin> {''Area_Name'', ''Group_Name'', ''Sub_Group_Name''} \<longrightarrow>
                (\<exists>x \<in> set xs. P (str_strip (astype_str x)) = None))"
  shows "\<forall>e \<in> set (strip_spaces df). stays_object P e"
proof
  fix e assume "e \<in> set (strip_spaces df)"
  then obtain n c where nc: "(n, c) \<in> set df" and e: "e = (n, strip_column c)"
    by (auto simp: strip_spaces_def)
  from bspec [OF assms nc] obtain xs where c: "c = ObjCol xs"
    and bad: "n \<notin> {''Area_Name'', ''Group_Name'', ''Sub_Group_Name''} \<longrightarrow>
                (\<exists>x \<in> set xs. P (str_strip (astype_str x)) = None)"
    by auto
  have "\<not> list_all (\<lambda>x. parse_cell P x \<noteq> None) (map (\<lambda>x. Some (str_strip (astype_str x))) xs)"
    if "n \<notin> set categorical"
  proof -
    from that bad obtain x where "x \<in> set xs" "P (str_strip (astype_str x)) = None"
      by (auto simp: categorical_literal)
    then show ?thesis by (auto simp: list_all_iff parse_cell_def)
  qed
  with e c show "stays_object P e"
    by (simp add: stays_object_def strip_column_def)
qed

lemma stays_object_standardize_area:
  assumes "\<forall>e \<in> set df. stays_object P e"
  shows "\<forall>e \<in> set (standardize_area df). stays_object P e"
proof (cases "standardize_area df = df")
  case True
  with assms show ?thesis by simp
next
  case False
  then obtain alt where sa: "standardize_area df = rename alt ''Area_Name'' df"
    by (auto simp: standardize_area_def split: option.splits if_splits)
  show ?thesis
  proof
    fix e assume "e \<in> set (standardize_area df)"
    with sa obtain n c where nc: "(n, c) \<in> set df"
      and e: "e = (if n = alt then ''Area_Name'' else n, c)"
      by (auto simp: rename_def)
    from assms nc have "stays_object P (n, c)" by blast
    with e show "stays_object P e"
      by (auto simp: stays_object_def categorical_def)
  qed
qed

lemma stays_object_convert_numeric:
  assumes "\<forall>e \<in> set df. stays_object P e"
  shows "\<forall>(n, c) \<in> set (convert_numeric P df). \<exists>xs. c = ObjCol xs"
proof (clarify)
  fix n c assume "(n, c) \<in> set (convert_numeric P df)"
  then obtain c0 where nc: "(n, c0) \<in> set df"
    and c: "c = (if n \<notin> set categorical then to_numeric_ignore P c0 else c0)"
    by (auto simp: convert_numeric_def split: if_splits)
  from assms nc have "stays_object P (n, c0)" by blast
  with c show "\<exists>xs. c = ObjCol xs"
    by (auto simp: stays_object_def to_numeric_ignore_def)
qed

text \<open>
  Claim C6. A table without the stolen-cases column whose columns are all object columns after
  the conversion of lines 62--65 is not normalized: \<^verbatim>\<open>load_data\<close> raises \<^verbatim>\<open>ValueError\<close> (the
  program's schema error) with a message that ends with the file path, and returns no table.
  This is the case of every table with no year column in which all columns are object columns
  and each column other than the three categorical ones has, once stripped, a cell that is no
  number.
\<close>

theorem C6_no_numeric_columns:
  assumes "''Cases_Property_Stolen'' \<notin> fst ` set df"
  shows "(\<forall>d. coerced P df = Inr d \<and> (\<forall>(n, c) \<in> set d. \<exists>xs. c = ObjCol xs) \<longrightarrow>
            load_data P file_path df =
              Inl (ValueError (''No numeric columns found in dataset: '' @ file_path))) \<and>
         (''Year'' \<notin> fst ` set df \<and>
          (\<forall>(n, c) \<in> set df. \<exists>xs. c = ObjCol xs \<and>
             (n \<notin> {''Area_Name'', ''Group_Name'', ''Sub_Group_Name''} \<longrightarrow>
                (\<exists>x \<in> set xs. P (str_strip (astype_str x)) = None))) \<longrightarrow>
            load_data P file_path df =
              Inl (ValueError (''No numeric columns found in dataset: '' @ file_path)))"
proof -
  from assms have k: "''Cases_Property_Stolen'' \<notin> set (columns df)"
    by (simp add: columns_image)
  have 1: "load_data P file_path df =
              Inl (ValueError (''No numeric columns found in dataset: '' @ file_path))"
    if "coerced P df = Inr d" and "\<forall>(n, c) \<in> set d. \<exists>xs. c = ObjCol xs" for d
    using k that(1) numeric_cols_all_object [OF that(2)] by (rule no_numeric_cols_fails)
  have 2: "load_data P file_path df =
              Inl (ValueError (''No numeric columns found in dataset: '' @ file_path))"
    if y: "''Year'' \<notin> fst ` set df"
      and o: "\<forall>(n, c) \<in> set df. \<exists>xs. c = ObjCol xs \<and>
             (n \<notin> {''Area_Name'', ''Group_Name'', ''Sub_Group_Name''} \<longrightarrow>
                (\<exists>x \<in> set xs. P (str_strip (astype_str x)) = None))"
  proof -
    let ?d = "convert_numeric P (standardize_area (strip_spaces df))"
    from y have c: "coerced P df = Inr ?d" by (rule coerced_no_year)
    from o have "\<forall>e \<in> set (strip_spaces df). stays_object P e"
      by (rule stays_object_strip)
    then have "\<forall>e \<in> set (standardize_area (strip_spaces df)). stays_object P e"
      by (rule stays_object_standardize_area)
    then have "\<forall>(n, c) \<in> set ?d. \<exists>xs. c = ObjCol xs"
      by (rule stays_object_convert_numeric)
    with c show ?thesis by (rule 1)
  qed
  from 1 2 show ?thesis by blast
qed


lemma is_numeric_iff: "is_numeric c \<longleftrightarrow> (\<exists>xs. c = NumCol xs)"
  by (cases c) simp_all

lemma base_col_position:
  assumes "\<exists>n xs. (n, NumCol xs) \<in> set d"
  shows "\<exists>i<length d. base_col (numeric_cols d) = fst (d ! i) \<and> is_numeric (snd (d ! i)) \<and>
     (if \<exists>j<length d. is_numeric (snd (d ! j)) \<and> is_preferred (fst (d ! j))
      then is_preferred (fst (d ! i)) \<and>
           (\<forall>j<i. \<not> (is_numeric (snd (d ! j)) \<and> is_preferred (fst (d ! j))))
      else (\<forall>j<i. \<not> is_numeric (snd (d ! j))))"
proof -
  let ?Q = "\<lambda>e :: string \<times> column. is_numeric (snd e)"
  let ?R = "\<lambda>e :: string \<times> column. is_numeric (snd e) \<and> is_preferred (fst e)"
  have nc: "numeric_cols d = map fst (filter ?Q d)"
    by (simp add: numeric_cols_def case_prod_unfold)
  have pref: "filter is_preferred (numeric_cols d) = map fst (filter ?R d)"
    by (simp add: nc filter_map comp_def conj_commute)
  show ?thesis
  proof (cases "filter ?R d")
    case Nil
    then have none: "\<not> (\<exists>j<length d. is_numeric (snd (d ! j)) \<and> is_preferred (fst (d ! j)))"
      by (auto simp: filter_empty_conv)
    from assms have "filter ?Q d \<noteq> []"
      by (force simp: filter_empty_conv)
    then obtain e es where q: "filter ?Q d = e # es" by (cases "filter ?Q d") auto
    from filter_first_index [OF q]
    obtain i where i: "i < length d" "d ! i = e" "?Q e" "\<forall>j<i. \<not> ?Q (d ! j)" by blast
    from Nil have "filter is_preferred (numeric_cols d) = []" by (simp add: pref)
    moreover from q have "hd (numeric_cols d) = fst e" by (simp add: nc)
    ultimately have "base_col (numeric_cols d) = fst e"
      by (simp add: base_col_def)
    with i none show ?thesis by (intro exI [of _ i]) (simp, blast)
  next
    case (Cons e es)
    from filter_first_index [OF Cons]
    obtain i where i: "i < length d" "d ! i = e" "?R e" "\<forall>j<i. \<not> ?R (d ! j)" by blast
    from i have some: "\<exists>j<length d. is_numeric (snd (d ! j)) \<and> is_preferred (fst (d ! j))"
      by (intro exI [of _ i]) simp
    from Cons have "filter is_preferred (numeric_cols d) = fst e # map fst es"
      by (simp add: pref)
    then have "base_col (numeric_cols d) = fst e"
      by (simp add: base_col_def)
    with i some show ?thesis by (intro exI [of _ i]) simp
  qed
qed

lemma fillna0_fun: "fillna0 = (\<lambda>x. case x of None \<Rightarrow> Some 0 | Some v \<Rightarrow> Some v)"
  by (rule ext) (simp add: fillna0_def)

lemma is_preferred_iff:
  "is_preferred n \<longleftrightarrow>
     (\<exists>w \<in> {''case'', ''crime'',
         ''total''}. \<exists>pre post. map py_lower_char n = pre @ w @ post)"
  by (simp add: is_preferred_def lower_def py_in_iff)

lemma py_lower_char_upper:
  "map py_lower_char ''ABCDEFGHIJKLMNOPQRSTUVWXYZ'' = ''abcdefghijklmnopqrstuvwxyz''"
  by (simp add: py_lower_char_def)

lemma py_lower_char_other:
  "c \<notin> set ''ABCDEFGHIJKLMNOPQRSTUVWXYZ'' \<Longrightarrow> py_lower_char c = c"
  by (simp add: py_lower_char_def)


lemma Total_Crimes_generic:
  assumes "coerced P df = Inr d" and "''Cases_Property_Stolen'' \<notin> set (columns d)"
    and "get_col d (base_col (numeric_cols d)) = Some (NumCol xs)"
    and "load_data P file_path df = Inr out"
  shows "map_of out ''Total_Crimes'' =
           Some (NumCol (map (\<lambda>x. case x of None \<Rightarrow> Some 0 | Some v \<Rightarrow> Some v) xs))"
proof -
  from assms(1,2,4) have "\<exists>d5. generic P file_path d = Inr d5 \<and>
      standardize_state_names (standardize_groups d5) = Inr out"
    by (simp add: load_data_def split: sum.splits)
  then obtain d5 where g: "generic P file_path d = Inr d5"
    and fin: "standardize_state_names (standardize_groups d5) = Inr out"
    by blast
  from fin have "get_col out ''Total_Crimes'' = get_col d5 ''Total_Crimes''"
    by (rule get_col_finish) simp_all
  also from g assms(3) have "\<dots> = Some (NumCol (map fillna0 (to_numeric_coerce P (NumCol xs))))"
    by (rule get_col_generic_Total_Crimes)
  finally show ?thesis
    by (simp add: get_col_def to_numeric_coerce_def fillna0_fun)
qed

lemmas base_col_position_NumCol = base_col_position [unfolded is_numeric_iff]

text \<open>
  Claim C7. For a table without the stolen-cases column that has a numeric column after the
  conversion (column names distinct, as \<^verbatim>\<open>read_csv\<close> makes them), the base column is a numeric
  column of the table: the first numeric column with a preferred name when there is one, the
  first numeric column otherwise. When \<^verbatim>\<open>load_data\<close> returns, \<^verbatim>\<open>Total_Crimes\<close> is that column
  with 0 for its missing cells. A name is preferred when its lower-case form contains
  \<^verbatim>\<open>case\<close>, \<^verbatim>\<open>crime\<close> or \<^verbatim>\<open>total\<close>; lower case maps \<^verbatim>\<open>A\<close>--\<^verbatim>\<open>Z\<close> to \<^verbatim>\<open>a\<close>--\<^verbatim>\<open>z\<close> and
  leaves every other character.
\<close>

theorem C7_base_col:
  assumes "coerced P df = Inr d" and "''Cases_Property_Stolen'' \<notin> fst ` set d"
    and "distinct (map fst d)" and "\<exists>n xs. (n, NumCol xs) \<in> set d"
  shows "(\<exists>i<length d. \<exists>xs. snd (d ! i) = NumCol xs \<and>
           (if \<exists>j<length d. (\<exists>ys. snd (d ! j) = NumCol ys) \<and> is_preferred (fst (d ! j))
            then is_preferred (fst (d ! i)) \<and>
                 (\<forall>j<i. \<not> ((\<exists>ys. snd (d ! j) = NumCol ys) \<and> is_preferred (fst (d ! j))))
            else (\<forall>j<i. \<not> (\<exists>ys. snd (d ! j) = NumCol ys))) \<and>
           base_col (numeric_cols d) = fst (d ! i) \<and>
           (\<forall>out. load_data P file_path df = Inr out \<longrightarrow>
              map_of out ''Total_Crimes'' =
                Some (NumCol (map (\<lambda>x. case x of None \<Rightarrow> Some 0 | Some v \<Rightarrow> Some v) xs)))) \<and>
         (\<forall>n. is_preferred n \<longleftrightarrow>
            (\<exists>w \<in> {''case'', ''crime'', ''total''}.
               \<exists>pre post. map py_lower_char n = pre @ w @ post)) \<and>
         map py_lower_char ''ABCDEFGHIJKLMNOPQRSTUVWXYZ'' = ''abcdefghijklmnopqrstuvwxyz'' \<and>
         (\<forall>c. c \<notin> set ''ABCDEFGHIJKLMNOPQRSTUVWXYZ'' \<longrightarrow> py_lower_char c = c)"
proof -
  from base_col_position_NumCol [OF assms(4)]
  obtain i where pos: "i < length d \<and> base_col (numeric_cols d) = fst (d ! i) \<and>
      (\<exists>xs. snd (d ! i) = NumCol xs) \<and>
      (if \<exists>j<length d. (\<exists>ys. snd (d ! j) = NumCol ys) \<and> is_preferred (fst (d ! j))
       then is_preferred (fst (d ! i)) \<and>
            (\<forall>j<i. \<not> ((\<exists>ys. snd (d ! j) = NumCol ys) \<and> is_preferred (fst (d ! j))))
       else (\<forall>j<i. \<not> (\<exists>ys. snd (d ! j) = NumCol ys)))"
    by (erule exE)
  note i = pos [THEN conjunct1]
    and b = pos [THEN conjunct2, THEN conjunct1]
    and num = pos [THEN conjunct2, THEN conjunct2, THEN conjunct1]
    and sel = pos [THEN conjunct2, THEN conjunct2, THEN conjunct2]
  from num obtain xs where xs: "snd (d ! i) = NumCol xs" by (elim exE)
  from i have "(fst (d ! i), snd (d ! i)) \<in> set d" by simp
  with assms(3) xs b have g: "get_col d (base_col (numeric_cols d)) = Some (NumCol xs)"
    by (simp add: get_col_def)
  from assms(2) have k: "''Cases_Property_Stolen'' \<notin> set (columns d)"
    by (simp add: columns_image)
  have tc: "\<forall>out. load_data P file_path df = Inr out \<longrightarrow>
              map_of out ''Total_Crimes'' =
                Some (NumCol (map (\<lambda>x. case x of None \<Rightarrow> Some 0 | Some v \<Rightarrow> Some v) xs))"
  proof (intro allI impI)
    fix out assume "load_data P file_path df = Inr out"
    with assms(1) k g show "map_of out ''Total_Crimes'' =
                Some (NumCol (map (\<lambda>x. case x of None \<Rightarrow> Some 0 | Some v \<Rightarrow> Some v) xs))"
      by (rule Total_Crimes_generic)
  qed
  have 1: "\<exists>i<length d. \<exists>xs. snd (d ! i) = NumCol xs \<and>
           (if \<exists>j<length d. (\<exists>ys. snd (d ! j) = NumCol ys) \<and> is_preferred (fst (d ! j))
            then is_preferred (fst (d ! i)) \<and>
                 (\<forall>j<i. \<not> ((\<exists>ys. snd (d ! j) = NumCol ys) \<and> is_preferred (fst (d ! j))))
            else (\<forall>j<i. \<not> (\<exists>ys. snd (d ! j) = NumCol ys))) \<and>
           base_col (numeric_cols d) = fst (d ! i) \<and>
           (\<forall>out. load_data P file_path df = Inr out \<longrightarrow>
              map_of out ''Total_Crimes'' =
                Some (NumCol (map (\<lambda>x. case x of None \<Rightarrow> Some 0 | Some v \<Rightarrow> Some v) xs)))"
    apply (rule exI [of _ i])
    apply (rule conjI [OF i])
    apply (rule exI [of _ xs])
    apply (rule conjI [OF xs])
    apply (rule conjI [OF sel])
    apply (rule conjI [OF b tc])
    done
  have 2: "\<forall>n. is_preferred n \<longleftrightarrow>
            (\<exists>w \<in> {''case'', ''crime'', ''total''}.
               \<exists>pre post. map py_lower_char n = pre @ w @ post)"
    by (intro allI) (rule is_preferred_iff)
  have 3: "\<forall>c. c \<notin> set ''ABCDEFGHIJKLMNOPQRSTUVWXYZ'' \<longrightarrow> py_lower_char c = c"
    by (intro allI impI) (rule py_lower_char_other)
  show ?thesis
    apply (rule conjI [OF 1])
    apply (rule conjI [OF 2])
    apply (rule conjI [OF py_lower_char_upper 3])
    done
qed

lemma rectk_nrows: "rectk k df \<Longrightarrow> df \<noteq> [] \<Longrightarrow> nrows df = k"
  by (cases df) (auto simp: rectk_def nrows_def)

lemma rectk_get_col: "rectk k df \<Longrightarrow> get_col df c = Some x \<Longrightarrow> col_len x = k"
  by (auto simp: rectk_def dest!: get_col_in)

lemma rectk_set_col: "rectk k df \<Longrightarrow> col_len v = k \<Longrightarrow> rectk k (set_col df c v)"
  by (auto simp: rectk_def set_col_def split: if_splits)

lemma set_col_nonempty: "df \<noteq> [] \<Longrightarrow> set_col df c v \<noteq> []"
  by (simp add: set_col_def)

lemma col_len_strip_column: "col_len (strip_column c) = col_len c"
  by (cases c) (simp_all add: strip_column_def)

lemma rectk_strip_spaces: "rectk k df \<Longrightarrow> rectk k (strip_spaces df)"
  by (auto simp: rectk_def strip_spaces_def col_len_strip_column)

lemma length_to_numeric_coerce: "length (to_numeric_coerce P c) = col_len c"
  by (cases c) (simp_all add: to_numeric_coerce_def)

lemma col_len_to_numeric_ignore: "col_len (to_numeric_ignore P c) = col_len c"
  by (cases c) (simp_all add: to_numeric_ignore_def)

lemma rectk_year: "rectk k df \<Longrightarrow> year_to_Int64 P df = Inr d \<Longrightarrow> rectk k d"
  by (auto simp: year_to_Int64_def astype_Int64_def length_to_numeric_coerce
      intro!: rectk_set_col dest: rectk_get_col split: option.splits sum.splits if_splits)

lemma rectk_rename: "rectk k df \<Longrightarrow> rectk k (rename old new df)"
  by (auto simp: rectk_def rename_def)

lemma rectk_standardize_area: "rectk k df \<Longrightarrow> rectk k (standardize_area df)"
  by (simp add: standardize_area_def rectk_rename split: option.splits)

lemma rectk_convert_numeric: "rectk k df \<Longrightarrow> rectk k (convert_numeric P df)"
  by (auto simp: rectk_def convert_numeric_def col_len_to_numeric_ignore split: if_splits)

lemma rectk_coerced: "rectk k df \<Longrightarrow> coerced P df = Inr d \<Longrightarrow> rectk k d"
  by (auto simp: coerced_def intro!: rectk_convert_numeric rectk_standardize_area
      dest: rectk_year [OF rectk_strip_spaces] split: sum.splits)


lemma fillna0_Some: "\<exists>v. fillna0 x = Some v"
  by (cases x) (simp_all add: fillna0_def)

lemma row_rates_map2:
  assumes "length xs = k" and "length ys = k"
  shows "row_rates k (map fillna0 xs) (map fillna0 ys)
           (map2 np_where_row_rate (map fillna0 xs) (map fillna0 ys))"
proof -
  have "\<exists>c r. map fillna0 xs ! i = Some c \<and> map fillna0 ys ! i = Some r \<and>
        map2 np_where_row_rate (map fillna0 xs) (map fillna0 ys) ! i =
          Some (if c > 0 then r / c else 0)" if "i < k" for i
  proof -
    obtain c where c: "fillna0 (xs ! i) = Some c" using fillna0_Some by blast
    obtain r where r: "fillna0 (ys ! i) = Some r" using fillna0_Some by blast
    from that assms c r show ?thesis
      by (simp add: np_where_row_rate_def)
  qed
  with assms show ?thesis by (simp add: row_rates_def)
qed

lemma row_rates_zeros:
  assumes "length xs = k"
  shows "row_rates k (map fillna0 xs) (replicate k (Some 0)) (replicate k (Some 0))"
proof -
  have "\<exists>c. map fillna0 xs ! i = Some c" if "i < k" for i
    using that assms fillna0_Some by simp
  with assms show ?thesis by (auto simp: row_rates_def)
qed

lemma property_crime_rates:
  assumes "rectk k d" and "property_crime P d = Inr d5"
  shows "\<exists>tc tr rr. get_col d5 ''Total_Crimes'' = Some (NumCol tc) \<and>
           get_col d5 ''Total_Recovered'' = Some (NumCol tr) \<and>
           get_col d5 ''Recovery_Rate'' = Some (NumCol rr) \<and> row_rates k tc tr rr"
proof -
  from assms(2) obtain stolen rec where
    s: "get_col d ''Cases_Property_Stolen'' = Some stolen"
    and r: "get_col d ''Cases_Property_Recovered'' = Some rec"
    and tc: "get_col d5 ''Total_Crimes'' = Some (NumCol (map fillna0 (to_numeric_coerce P stolen)))"
    and tr: "get_col d5 ''Total_Recovered'' = Some (NumCol (map fillna0 (to_numeric_coerce P rec)))"
    and rr: "get_col d5 ''Recovery_Rate'' =
       Some (NumCol (map2 np_where_row_rate (map fillna0 (to_numeric_coerce P stolen))
                      (map fillna0 (to_numeric_coerce P rec))))"
    by (auto simp: property_crime_def Let_def get_numeric_filled_def get_col_set_col
        split: option.splits sum.splits)
  from assms(1) s r have "length (to_numeric_coerce P stolen) = k"
    "length (to_numeric_coerce P rec) = k"
    by (simp_all add: length_to_numeric_coerce rectk_get_col)
  then have "row_rates k (map fillna0 (to_numeric_coerce P stolen))
      (map fillna0 (to_numeric_coerce P rec))
      (map2 np_where_row_rate (map fillna0 (to_numeric_coerce P stolen))
                      (map fillna0 (to_numeric_coerce P rec)))"
    by (rule row_rates_map2)
  with tc tr rr show ?thesis by blast
qed


lemma zeros_rectk: "rectk k df \<Longrightarrow> df \<noteq> [] \<Longrightarrow> zeros df = NumCol (replicate k (Some 0))"
  by (simp add: zeros_def rectk_nrows)

lemma generic_rates:
  assumes "rectk k d" and "generic P fp d = Inr d5"
  shows "\<exists>tc tr rr. get_col d5 ''Total_Crimes'' = Some (NumCol tc) \<and>
           get_col d5 ''Total_Recovered'' = Some (NumCol tr) \<and>
           get_col d5 ''Recovery_Rate'' = Some (NumCol rr) \<and> row_rates k tc tr rr"
proof -
  from assms(2) have ne: "d \<noteq> []"
    by (auto simp: generic_def numeric_cols_def split: if_splits)
  from assms(2) obtain base where b: "get_col d (base_col (numeric_cols d)) = Some base"
    by (auto simp: generic_def split: if_splits option.splits)
  define tc where "tc = map fillna0 (to_numeric_coerce P base)"
  define df1 where "df1 = set_col d ''Total_Crimes'' (NumCol tc)"
  define df2 where "df2 = set_col df1 ''Total_Recovered'' (zeros df1)"
  define df3 where "df3 = set_col df2 ''Loss_Value'' (zeros df2)"
  from assms(2) b have d5: "d5 = set_col df3 ''Recovery_Rate'' (zeros df3)"
    by (auto simp: generic_def Let_def tc_def df1_def df2_def df3_def split: if_splits)
  from assms(1) b have len: "length tc = k"
    by (simp add: tc_def length_to_numeric_coerce rectk_get_col)
  with assms(1) ne have r1: "rectk k df1" "df1 \<noteq> []"
    by (simp_all add: df1_def rectk_set_col set_col_nonempty)
  then have z1: "zeros df1 = NumCol (replicate k (Some 0))" by (rule zeros_rectk)
  with r1 have r2: "rectk k df2" "df2 \<noteq> []"
    by (simp_all add: df2_def rectk_set_col set_col_nonempty)
  then have z2: "zeros df2 = NumCol (replicate k (Some 0))" by (rule zeros_rectk)
  with r2 have r3: "rectk k df3" "df3 \<noteq> []"
    by (simp_all add: df3_def rectk_set_col set_col_nonempty)
  then have z3: "zeros df3 = NumCol (replicate k (Some 0))" by (rule zeros_rectk)
  have "get_col d5 ''Total_Crimes'' = Some (NumCol tc)"
    by (simp add: d5 df3_def df2_def df1_def get_col_set_col)
  moreover have "get_col d5 ''Total_Recovered'' = Some (NumCol (replicate k (Some 0)))"
    by (simp add: d5 df3_def df2_def get_col_set_col z1)
  moreover have "get_col d5 ''Recovery_Rate'' = Some (NumCol (replicate k (Some 0)))"
    by (simp add: d5 get_col_set_col z3)
  moreover from len have "row_rates k tc (replicate k (Some 0)) (replicate k (Some 0))"
    unfolding tc_def by (intro row_rates_zeros) (simp add: length_to_numeric_coerce)
  ultimately show ?thesis by blast
qed

lemma row_rates_bounds:
  fixes c r :: rat
  shows "(0 \<le> r \<and> r \<le> c \<longrightarrow> 0 \<le> (if c > 0 then r / c else 0) \<and> (if c > 0 then r / c else 0) \<le> 1) \<and>
         (0 < c \<and> c < r \<longrightarrow> 1 < (if c > 0 then r / c else 0))"
  by (auto simp: divide_le_eq less_divide_eq)

text \<open>
  Claim C2, as amended. When \<^verbatim>\<open>load_data\<close> returns, the table has the columns \<^verbatim>\<open>Total_Crimes\<close>,
  \<^verbatim>\<open>Total_Recovered\<close> and \<^verbatim>\<open>Recovery_Rate\<close> with one number in every row, and in every row the
  rate is \<^verbatim>\<open>Total_Recovered / Total_Crimes\<close> when \<^verbatim>\<open>Total_Crimes\<close> is positive and 0 otherwise. The
  rate is not clamped: it is in the interval from 0 to 1 when the recovered count is between 0
  and the crime count, and above 1 when the recovered count exceeds a positive crime count.
\<close>

theorem C2_amended:
  assumes "\<forall>(n, c) \<in> set df. col_len c = k" and "load_data P file_path df = Inr out"
  shows "\<exists>tc tr rr. map_of out ''Total_Crimes'' = Some (NumCol tc) \<and>
           map_of out ''Total_Recovered'' = Some (NumCol tr) \<and>
           map_of out ''Recovery_Rate'' = Some (NumCol rr) \<and>
           length tc = k \<and> length tr = k \<and> length rr = k \<and>
           (\<forall>i<k. \<exists>c r. tc ! i = Some c \<and> tr ! i = Some r \<and>
              rr ! i = Some (if c > 0 then r / c else 0) \<and>
              (0 \<le> r \<and> r \<le> c \<longrightarrow>
                 0 \<le> (if c > 0 then r / c else 0) \<and> (if c > 0 then r / c else 0) \<le> 1) \<and>
              (0 < c \<and> c < r \<longrightarrow> 1 < (if c > 0 then r / c else 0)))"
proof -
  from assms(1) have rect: "rectk k df" by (simp add: rectk_def)
  from assms(2) obtain d d5 where c: "coerced P df = Inr d"
    and kind: "(if ''Cases_Property_Stolen'' \<in> set (columns d) then property_crime P d
                else generic P file_path d) = Inr d5"
    and fin: "standardize_state_names (standardize_groups d5) = Inr out"
    by (auto simp: load_data_def split: sum.splits)
  from rect c have rd: "rectk k d" by (rule rectk_coerced)
  from kind have "\<exists>tc tr rr. get_col d5 ''Total_Crimes'' = Some (NumCol tc) \<and>
           get_col d5 ''Total_Recovered'' = Some (NumCol tr) \<and>
           get_col d5 ''Recovery_Rate'' = Some (NumCol rr) \<and> row_rates k tc tr rr"
    using property_crime_rates [OF rd] generic_rates [OF rd] by (auto split: if_splits)
  then obtain tc tr rr where g: "get_col d5 ''Total_Crimes'' = Some (NumCol tc)"
    "get_col d5 ''Total_Recovered'' = Some (NumCol tr)"
    "get_col d5 ''Recovery_Rate'' = Some (NumCol rr)" and rows: "row_rates k tc tr rr"
    by blast
  have "get_col out ''Total_Crimes'' = get_col d5 ''Total_Crimes''"
    "get_col out ''Total_Recovered'' = get_col d5 ''Total_Recovered''"
    "get_col out ''Recovery_Rate'' = get_col d5 ''Recovery_Rate''"
    by (rule get_col_finish [OF fin]; simp)+
  with g have m: "map_of out ''Total_Crimes'' = Some (NumCol tc)"
    "map_of out ''Total_Recovered'' = Some (NumCol tr)"
    "map_of out ''Recovery_Rate'' = Some (NumCol rr)"
    by (simp_all add: get_col_def)
  from rows have "length tc = k \<and> length tr = k \<and> length rr = k \<and>
           (\<forall>i<k. \<exists>c r. tc ! i = Some c \<and> tr ! i = Some r \<and>
              rr ! i = Some (if c > 0 then r / c else 0) \<and>
              (0 \<le> r \<and> r \<le> c \<longrightarrow>
                 0 \<le> (if c > 0 then r / c else 0) \<and> (if c > 0 then r / c else 0) \<le> 1) \<and>
              (0 < c \<and> c < r \<longrightarrow> 1 < (if c > 0 then r / c else 0)))"
    unfolding row_rates_def using row_rates_bounds by metis
  with m show ?thesis by blast
qed

text \<open>
  Claim C1 as stated fails: for the columns \<^verbatim>\<open>Foo\<close> (text) and \<^verbatim>\<open>Bar\<close> (numbers) the derived
  columns are computed from \<^verbatim>\<open>Bar\<close> and the error is the \<^verbatim>\<open>KeyError\<close> of line 110, not a schema
  error raised where the region column is resolved.
\<close>

theorem C1_counterexample:
  "load_data (\<lambda>s. None) ''murder_cleaned.csv''
     [(''Foo'', ObjCol [Some ''x'']), (''Bar'', NumCol [Some 1])] =
   Inl (KeyError ''Area_Name'')"
  by (simp add: load_data_def frame_defs coerced_defs derive_defs finish_defs)

theorem C1_witness:
  "''Area_Name'' \<notin> fst ` set [(''Foo'', ObjCol [Some ''x'']), (''Bar'',
      NumCol [Some 1])] \<and>
   (\<exists>n xs. (n, NumCol xs) \<in> set [(''Foo'', ObjCol [Some ''x'']), (''Bar'',
       NumCol [Some 1])]) \<and>
   load_data (\<lambda>s. None) ''murder_cleaned.csv''
     [(''Foo'', ObjCol [Some ''x'']), (''Bar'',
         NumCol [Some 1])] = Inl (KeyError ''Area_Name'') \<and>
   load_data (\<lambda>s. None) ''murder_cleaned.csv'' [(''Foo'', ObjCol [Some ''x''])] =
     Inl (ValueError ''No numeric columns found in dataset: murder_cleaned.csv'')"
proof -
  let ?df = "[(''Foo'', ObjCol [Some ''x'']), (''Bar'', NumCol [Some 1])]"
  have a: "''Area_Name'' \<notin> fst ` set ?df" by simp
  have b: "\<forall>alt \<in> {''STATE/UT'', ''State/UT'', ''State'', ''STATE'', ''District'',
      ''DISTRICT''}.
             alt \<notin> fst ` set ?df" by simp
  have c: "''Year'' \<notin> fst ` set ?df \<and> ''Cases_Property_Stolen'' \<notin> fst ` set ?df \<and>
          (\<exists>n xs. (n, NumCol xs) \<in> set ?df)" by simp
  from C1_amended [OF a b, of "''murder_cleaned.csv''" "\<lambda>s. None", THEN conjunct2] c
  have 1: "load_data (\<lambda>s. None) ''murder_cleaned.csv'' ?df = Inl (KeyError ''Area_Name'')"
    by (rule mp)
  have 2: "load_data (\<lambda>s. None) ''murder_cleaned.csv'' [(''Foo'', ObjCol [Some ''x''])] =
     Inl (ValueError ''No numeric columns found in dataset: murder_cleaned.csv'')"
    by (simp add: load_data_def frame_defs coerced_defs derive_defs finish_defs)
  from a c 1 2 show ?thesis by simp
qed

theorem C6_witness:
  "''Cases_Property_Stolen'' \<notin> fst ` set [(''Area_Name'', ObjCol [Some '' Goa '']),
      (''Notes'', ObjCol [None, Some ''n/a''])] \<and>
   ''Year'' \<notin> fst ` set [(''Area_Name'', ObjCol [Some '' Goa '']), (''Notes'',
       ObjCol [None, Some ''n/a''])] \<and>
   coerced (\<lambda>s. None) [(''Area_Name'', ObjCol [Some '' Goa '']), (''Notes'',
       ObjCol [None, Some ''n/a''])] =
     Inr [(''Area_Name'', ObjCol [Some ''Goa'']), (''Notes'', ObjCol [Some ''nan'',
         Some ''n/a''])] \<and>
   load_data (\<lambda>s. None) ''murder_cleaned.csv'' [(''Area_Name'', ObjCol [Some '' Goa '']),
       (''Notes'', ObjCol [None, Some ''n/a''])] =
     Inl (ValueError ''No numeric columns found in dataset: murder_cleaned.csv'')"
proof -
  let ?df = "[(''Area_Name'', ObjCol [Some '' Goa '']), (''Notes'', ObjCol [None, Some ''n/a''])]"
  have k: "''Cases_Property_Stolen'' \<notin> fst ` set ?df" by simp
  have y: "''Year'' \<notin> fst ` set ?df" by simp
  have o: "\<forall>(n, c) \<in> set ?df. \<exists>xs. c = ObjCol xs \<and>
             (n \<notin> {''Area_Name'', ''Group_Name'', ''Sub_Group_Name''} \<longrightarrow>
                (\<exists>x \<in> set xs. (\<lambda>s. None) (str_strip (astype_str x)) = None))"
    by auto
  have c: "coerced (\<lambda>s. None) ?df =
     Inr [(''Area_Name'', ObjCol [Some ''Goa'']), (''Notes'', ObjCol [Some ''nan'', Some ''n/a''])]"
    by (simp add: frame_defs coerced_defs)
  from y o have yo: "''Year'' \<notin> fst ` set ?df \<and>
      (\<forall>(n, c) \<in> set ?df. \<exists>xs. c = ObjCol xs \<and>
             (n \<notin> {''Area_Name'', ''Group_Name'', ''Sub_Group_Name''} \<longrightarrow>
                (\<exists>x \<in> set xs. (\<lambda>s. None) (str_strip (astype_str x)) = None)))"
    by (rule conjI)
  from C6_no_numeric_columns [OF k, of "\<lambda>s. None" "''murder_cleaned.csv''",
      THEN conjunct2] yo
  have "load_data (\<lambda>s. None) ''murder_cleaned.csv'' ?df =
     Inl (ValueError (''No numeric columns found in dataset: '' @ ''murder_cleaned.csv''))"
    by (rule mp)
  with k y c show ?thesis by simp
qed

theorem C7_witness:
  "coerced (\<lambda>s. None) [(''Area_Name'', ObjCol [Some ''Goa'']), (''Murders_Reported'',
      NumCol [Some 12])] = Inr [(''Area_Name'', ObjCol [Some ''Goa'']), (''Murders_Reported'',
      NumCol [Some 12])] \<and>
   base_col (numeric_cols [(''Area_Name'', ObjCol [Some ''Goa'']), (''Murders_Reported'',
       NumCol [Some 12])]) = ''Murders_Reported'' \<and>
   (\<exists>out. load_data (\<lambda>s. None) ''murder_cleaned.csv'' [(''Area_Name'',
       ObjCol [Some ''Goa'']), (''Murders_Reported'', NumCol [Some 12])] = Inr out \<and>
      map_of out ''Total_Crimes'' = Some (NumCol [Some 12])) \<and>
   coerced (\<lambda>s. None) [(''Area_Name'', ObjCol [Some ''Goa'', Some ''Orissa'']),
       (''Year'', NumCol [Some 2001, Some 2002]),
      (''Victims'', NumCol [Some 3, Some 4]), (''TOTAL_Cases'', NumCol [Some 7, None]),
      (''Crime_Rate'', NumCol [Some 1, Some 2])] = Inr [(''Area_Name'', ObjCol [Some ''Goa'',
          Some ''Orissa'']), (''Year'', NumCol [Some 2001, Some 2002]),
      (''Victims'', NumCol [Some 3, Some 4]), (''TOTAL_Cases'', NumCol [Some 7, None]),
      (''Crime_Rate'', NumCol [Some 1, Some 2])] \<and>
   base_col (numeric_cols [(''Area_Name'', ObjCol [Some ''Goa'', Some ''Orissa'']), (''Year'',
       NumCol [Some 2001, Some 2002]),
      (''Victims'', NumCol [Some 3, Some 4]), (''TOTAL_Cases'', NumCol [Some 7, None]),
      (''Crime_Rate'', NumCol [Some 1, Some 2])]) = ''TOTAL_Cases'' \<and>
   (\<exists>out. load_data (\<lambda>s. None) ''murder_cleaned.csv'' [(''Area_Name'',
       ObjCol [Some ''Goa'', Some ''Orissa'']), (''Year'', NumCol [Some 2001, Some 2002]),
      (''Victims'', NumCol [Some 3, Some 4]), (''TOTAL_Cases'', NumCol [Some 7, None]),
      (''Crime_Rate'', NumCol [Some 1, Some 2])] = Inr out \<and>
      map_of out ''Total_Crimes'' = Some (NumCol [Some 7, Some 0]) \<and>
      map_of out ''Area_Name'' = Some (ObjCol [Some ''Goa'', Some ''Odisha'']))"
proof -
  let ?a = "[(''Area_Name'', ObjCol [Some ''Goa'']), (''Murders_Reported'', NumCol [Some 12])]"
  let ?b = "[(''Area_Name'', ObjCol [Some ''Goa'', Some ''Orissa'']), (''Year'',
      NumCol [Some 2001, Some 2002]),
      (''Victims'', NumCol [Some 3, Some 4]), (''TOTAL_Cases'', NumCol [Some 7, None]),
      (''Crime_Rate'', NumCol [Some 1, Some 2])]"
  have ca: "coerced (\<lambda>s. None) ?a = Inr ?a" by (simp add: frame_defs coerced_defs)
  have cb: "coerced (\<lambda>s. None) ?b = Inr ?b" by (simp add: frame_defs coerced_defs)
  have ka: "''Cases_Property_Stolen'' \<notin> fst ` set ?a" by simp
  have kb: "''Cases_Property_Stolen'' \<notin> fst ` set ?b" by simp
  have da: "distinct (map fst ?a)" by simp
  have db: "distinct (map fst ?b)" by simp
  have na: "\<exists>n xs. (n, NumCol xs) \<in> set ?a" by simp
  have nb: "\<exists>n xs. (n, NumCol xs) \<in> set ?b" by auto
  have la: "\<exists>out. load_data (\<lambda>s. None) ''murder_cleaned.csv'' ?a = Inr out \<and>
      map_of out ''Total_Crimes'' = Some (NumCol [Some 12])"
    by (simp add: load_data_def frame_defs coerced_defs derive_defs finish_defs)
  have lb: "\<exists>out. load_data (\<lambda>s. None) ''murder_cleaned.csv'' ?b = Inr out \<and>
      map_of out ''Total_Crimes'' = Some (NumCol [Some 7, Some 0]) \<and>
      map_of out ''Area_Name'' = Some (ObjCol [Some ''Goa'', Some ''Odisha''])"
    by (simp add: load_data_def frame_defs coerced_defs derive_defs finish_defs)
  have ba: "base_col (numeric_cols ?a) = ''Murders_Reported''"
    by (simp add: derive_defs)
  have bb: "base_col (numeric_cols ?b) = ''TOTAL_Cases''"
    by (simp add: derive_defs)
  note C7_base_col [OF ca ka da na, of "''murder_cleaned.csv''"]
    C7_base_col [OF cb kb db nb, of "''murder_cleaned.csv''"]
  with ca cb la lb ba bb show ?thesis by simp
qed

text \<open>
  Claim C2 as stated fails: a row of the property-crime file with 3 cases stolen and 5 cases
  recovered gets the rate 5/3.
\<close>

theorem C2_counterexample:
  "(\<exists>out. load_data (\<lambda>s. None) ''property_crime_cleaned.csv''
      [(''Area_Name'', ObjCol [Some ''Goa'', Some ''Kerala'']),
       (''Cases_Property_Stolen'', NumCol [Some 3, None]),
       (''Cases_Property_Recovered'', NumCol [Some 5, Some 2]),
       (''Value_of_Property_Stolen'', NumCol [Some 100, Some 50]),
       (''Value_of_Property_Recovered'', NumCol [Some 120, Some 10])] = Inr out \<and>
     map_of out ''Total_Crimes'' = Some (NumCol [Some 3, Some 0]) \<and>
     map_of out ''Total_Recovered'' = Some (NumCol [Some 5, Some 2]) \<and>
     map_of out ''Recovery_Rate'' = Some (NumCol [Some (5 / 3), Some 0])) \<and>
   (1 :: rat) < 5 / 3"
  by (simp add: load_data_def frame_defs coerced_defs derive_defs finish_defs)

theorem C2_witness:
  "(\<exists>out tc tr rr. load_data (\<lambda>s. None) ''property_crime_cleaned.csv''
      [(''Area_Name'', ObjCol [Some ''Goa'', Some ''Kerala'']),
       (''Cases_Property_Stolen'', NumCol [Some 3, None]),
       (''Cases_Property_Recovered'', NumCol [Some 5, Some 2]),
       (''Value_of_Property_Stolen'', NumCol [Some 100, Some 50]),
       (''Value_of_Property_Recovered'', NumCol [Some 120, Some 10])] = Inr out \<and>
     map_of out ''Total_Crimes'' = Some (NumCol tc) \<and>
     map_of out ''Total_Recovered'' = Some (NumCol tr) \<and>
     map_of out ''Recovery_Rate'' = Some (NumCol rr) \<and>
     length rr = 2 \<and> tc ! 0 = Some 3 \<and> tr ! 0 = Some 5 \<and> rr ! 0 = Some (5 / 3) \<and>
     tc ! 1 = Some 0 \<and> tr ! 1 = Some 2 \<and> rr ! 1 = Some 0)"
proof -
  let ?df = "[(''Area_Name'', ObjCol [Some ''Goa'', Some ''Kerala'']),
       (''Cases_Property_Stolen'', NumCol [Some 3, None]),
       (''Cases_Property_Recovered'', NumCol [Some 5, Some 2]),
       (''Value_of_Property_Stolen'', NumCol [Some 100, Some 50]),
       (''Value_of_Property_Recovered'', NumCol [Some 120, Some 10])]"
  have r: "\<forall>(n, c) \<in> set ?df. col_len c = 2" by simp
  obtain out where l: "load_data (\<lambda>s. None) ''property_crime_cleaned.csv'' ?df = Inr out"
    and tc: "map_of out ''Total_Crimes'' = Some (NumCol [Some 3, Some 0])"
    and tr: "map_of out ''Total_Recovered'' = Some (NumCol [Some 5, Some 2])"
    by (simp add: load_data_def frame_defs coerced_defs derive_defs finish_defs)
  from C2_amended [OF r l]
  obtain tc' tr' rr where m: "map_of out ''Total_Crimes'' = Some (NumCol tc')"
      "map_of out ''Total_Recovered'' = Some (NumCol tr')"
    and rr: "map_of out ''Recovery_Rate'' = Some (NumCol rr)" and len: "length rr = 2"
    and rows: "\<forall>i<2. \<exists>c r. tc' ! i = Some c \<and> tr' ! i = Some r \<and>
              rr ! i = Some (if c > 0 then r / c else 0) \<and>
              (0 \<le> r \<and> r \<le> c \<longrightarrow>
                 0 \<le> (if c > 0 then r / c else 0) \<and> (if c > 0 then r / c else 0) \<le> 1) \<and>
              (0 < c \<and> c < r \<longrightarrow> 1 < (if c > 0 then r / c else 0))"
    by blast
  from m tc tr have eq: "tc' = [Some 3, Some 0]" "tr' = [Some 5, Some 2]" by simp_all
  from rows [THEN spec, of 0] rows [THEN spec, of 1]
  have "rr ! 0 = Some (5 / 3)" "rr ! 1 = Some 0" by (simp_all add: eq)
  with l tc tr rr len show ?thesis by simp
qed

end
